theory Spec2Isabelle
  imports Main "HOL-Library.Sublist"
begin

section \<open>Remote services, exceptions and effects\<close>

text \<open>
  The three Lambda functions talk to QuickSight, S3 and Okta through SDK clients.
  None of these services is part of the repository, so a service is a parameter of
  every function below: a deterministic machine \<open>api\<close> over an arbitrary world
  \<open>'w\<close> that answers each call with a reply and a new world.  Every run returns its
  outcome, the final world and the list of events it produced, in order: the remote
  calls with their replies, the log lines and the sleeps.
\<close>

type_synonym response = "nat \<times> string"
  \<comment> \<open>\<open>{'statusCode': ..., 'body': json.dumps(text)}\<close>: the body is the text between
      two double quotes (\<open>CHR 0x22\<close>); none of the texts has a character to escape\<close>

datatype exn =
    ClientError string          \<comment> \<open>botocore's ClientError, with \<open>err.response['Error']['Code']\<close>\<close>
  | KeyError                    \<comment> \<open>a reply without the key the code reads\<close>
  | OtherException string       \<comment> \<open>any other exception\<close>
  | Failed response             \<comment> \<open>\<open>Exception(FAILURE_RESPONSE)\<close>\<close>

datatype action_arg =
    EmptyStr                    \<comment> \<open>\<open>actions = ''\<close>\<close>
  | ActionList "string list"

record dataset_summary =
  Name :: string
  DataSetId :: string

record permission_entry =
  Principal :: string
  Actions :: "string list"

record manifest_user =
  m_username :: string
  m_email :: string
  m_groups :: "string list"

record manifest_asset =
  m_name :: string
  m_category :: string
  m_namespace :: string
  m_asset_groups :: "string list"
  m_permission :: string

record okta_app_user =
  okta_id :: string
  credentials_userName :: string
  profile :: "(string \<times> string) list"
    \<comment> \<open>the other attributes of the Okta user, its e-mail address among them\<close>

datatype call =
    DescribeNamespace string string
      \<comment> \<open>AwsAccountId, Namespace\<close>
  | CreateNamespace string string string
      \<comment> \<open>AwsAccountId, Namespace, IdentityStore\<close>
  | DescribeUser string string string
      \<comment> \<open>UserName, AwsAccountId, Namespace\<close>
  | RegisterUser string string string string string string string
      \<comment> \<open>IdentityType, Email, UserRole, IamArn, SessionName, AwsAccountId, Namespace\<close>
  | UpdateUser string string string string string
      \<comment> \<open>UserName, AwsAccountId, Namespace, Role, Email\<close>
  | DeleteUser string string string
      \<comment> \<open>UserName, AwsAccountId, Namespace\<close>
  | DescribeGroup string string string
      \<comment> \<open>GroupName, AwsAccountId, Namespace\<close>
  | CreateGroup string string string
      \<comment> \<open>GroupName, AwsAccountId, Namespace\<close>
  | ListUserGroups string string string
      \<comment> \<open>UserName, AwsAccountId, Namespace\<close>
  | CreateGroupMembership string string string string
      \<comment> \<open>MemberName, GroupName, AwsAccountId, Namespace\<close>
  | DeleteGroupMembership string string string string
      \<comment> \<open>MemberName, GroupName, AwsAccountId, Namespace\<close>
  | ListDataSets string "string option"
      \<comment> \<open>AwsAccountId, NextToken\<close>
  | DescribeDataSetPermissions string string
      \<comment> \<open>AwsAccountId, DataSetId\<close>
  | GrantPermissions string string string action_arg
      \<comment> \<open>update_data_set_permissions: AwsAccountId, DataSetId, and the one
          GrantPermissions entry (Principal, Actions)\<close>
  | RevokePermissions string string string "string list"
      \<comment> \<open>update_data_set_permissions: AwsAccountId, DataSetId, and the one
          RevokePermissions entry (Principal, Actions)\<close>
  | GetObject string string
      \<comment> \<open>S3: Bucket, Key\<close>
  | PutObject string string "manifest_user list"
      \<comment> \<open>S3: Bucket, Key, and the manifest that is serialised into the body\<close>
  | OktaAppUsers
      \<comment> \<open>GET /apps/{appId}/users\<close>
  | OktaUserGroups string
      \<comment> \<open>GET /users/{id}/groups\<close>

datatype reply =
    ROk
  | RErr exn
      \<comment> \<open>the call raises\<close>
  | RGroupList "string list"
      \<comment> \<open>the GroupName of every entry of \<open>GroupList\<close>\<close>
  | RDataSets "dataset_summary list" "string option"
      \<comment> \<open>\<open>DataSetSummaries\<close> and \<open>NextToken\<close>\<close>
  | RPermissions "permission_entry list"
  | RUserManifest "manifest_user list"
      \<comment> \<open>a body that decodes to \<open>{"users": [...]}\<close>\<close>
  | RAssetManifest "manifest_asset list"
      \<comment> \<open>a body that decodes to \<open>{"assets": [...]}\<close>\<close>
  | ROktaUsers "okta_app_user list"
  | ROktaGroups "string list"
      \<comment> \<open>\<open>profile.name\<close> of every group of the answer\<close>

datatype event =
    Api call reply
  | Log string "string list"
      \<comment> \<open>a LOGGER line: its fixed text and the values it interpolates\<close>
  | Sleep nat

type_synonym ('w, 'a) prog = "'w \<Rightarrow> (exn + 'a) \<times> 'w \<times> event list"

type_synonym 'w service = "'w \<Rightarrow> call \<Rightarrow> reply \<times> 'w"

definition ret :: "'a \<Rightarrow> ('w, 'a) prog" where
  "ret x w = (Inr x, w, [])"

definition raise :: "exn \<Rightarrow> ('w, 'a) prog" where
  "raise e w = (Inl e, w, [])"

definition bnd :: "('w, 'a) prog \<Rightarrow> ('a \<Rightarrow> ('w, 'b) prog) \<Rightarrow> ('w, 'b) prog" where
  "bnd m f w =
     (case m w of
        (Inl e, w1, t1) \<Rightarrow> (Inl e, w1, t1)
      | (Inr x, w1, t1) \<Rightarrow> (case f x w1 of (r, w2, t2) \<Rightarrow> (r, w2, t1 @ t2)))"

definition except_ClientError ::
  "('w, 'a) prog \<Rightarrow> (string \<Rightarrow> ('w, 'a) prog) \<Rightarrow> ('w, 'a) prog" where
  \<comment> \<open>\<open>try: m  except ClientError as err: h code\<close>; other exceptions pass through\<close>
  "except_ClientError m h w =
     (case m w of
        (Inl (ClientError c), w1, t1) \<Rightarrow> (case h c w1 of (r, w2, t2) \<Rightarrow> (r, w2, t1 @ t2))
      | other \<Rightarrow> other)"

definition except_Exception ::
  "('w, 'a) prog \<Rightarrow> (exn \<Rightarrow> ('w, 'a) prog) \<Rightarrow> ('w, 'a) prog" where
  \<comment> \<open>\<open>try: m  except Exception as err: h err\<close>\<close>
  "except_Exception m h w =
     (case m w of
        (Inl e, w1, t1) \<Rightarrow> (case h e w1 of (r, w2, t2) \<Rightarrow> (r, w2, t1 @ t2))
      | other \<Rightarrow> other)"

definition invoke :: "'w service \<Rightarrow> call \<Rightarrow> ('w, reply) prog" where
  "invoke api c w =
     (case api w c of
        (RErr e, w1) \<Rightarrow> (Inl e, w1, [Api c (RErr e)])
      | (r, w1) \<Rightarrow> (Inr r, w1, [Api c r]))"

definition logger :: "string \<Rightarrow> string list \<Rightarrow> ('w, unit) prog" where
  "logger msg args w = (Inr (), w, [Log msg args])"

definition sleep :: "nat \<Rightarrow> ('w, unit) prog" where
  "sleep n w = (Inr (), w, [Sleep n])"

primrec for_each :: "'a list \<Rightarrow> ('a \<Rightarrow> ('w, unit) prog) \<Rightarrow> ('w, unit) prog" where
  "for_each [] body = ret ()"
| "for_each (x # xs) body = bnd (body x) (\<lambda>_. for_each xs body)"

definition outcome :: "(exn + 'a) \<times> 'w \<times> event list \<Rightarrow> exn + 'a" where
  "outcome r = fst r"

definition trace :: "(exn + 'a) \<times> 'w \<times> event list \<Rightarrow> event list" where
  "trace r = snd (snd r)"

definition calls :: "event list \<Rightarrow> call list" where
  \<comment> \<open>the remote calls of a trace, in the order they were issued\<close>
  "calls t = concat (map (\<lambda>ev. case ev of Api c r \<Rightarrow> [c] | _ \<Rightarrow> []) t)"


section \<open>User governance (qs_user_gov.py)\<close>

record user_env =
  OKTA_ROLE_NAME :: string
  BUCKET :: string
  KEY :: string
  QS_PREFIX :: string
  QS_ADMIN_OKTA_GROUP :: string
  QS_AUTHOR_OKTA_GROUP :: string
  QS_READER_OKTA_GROUP :: string

record OktaUser =
  username :: string
  email :: string
  groups :: "string list"
  account_id :: string
  namespace :: string
  qs_username :: string
  qs_groups :: "string list"
  qs_role :: string

definition post_init_qs_groups :: "user_env \<Rightarrow> string list \<Rightarrow> string list" where
  \<comment> \<open>\<open>[grp for grp in self.groups if grp.startswith(QS_PREFIX)]\<close>\<close>
  "post_init_qs_groups env gs = filter (\<lambda>grp. prefix (QS_PREFIX env) grp) gs"

definition post_init_qs_role :: "user_env \<Rightarrow> string list \<Rightarrow> string" where
  "post_init_qs_role env qgs =
     (if QS_ADMIN_OKTA_GROUP env \<in> set qgs then ''ADMIN''
      else if QS_AUTHOR_OKTA_GROUP env \<in> set qgs then ''AUTHOR''
      else if QS_READER_OKTA_GROUP env \<in> set qgs then ''READER''
      else '''')"

definition new_OktaUser ::
  "user_env \<Rightarrow> string \<Rightarrow> string \<Rightarrow> string list \<Rightarrow> string \<Rightarrow> string \<Rightarrow> OktaUser" where
  \<comment> \<open>the dataclass constructor followed by \<open>__post_init__\<close>\<close>
  "new_OktaUser env un em gs acct ns =
     \<lparr> username = un, email = em, groups = gs, account_id = acct, namespace = ns,
       qs_username = OKTA_ROLE_NAME env @ ''/'' @ un,
       qs_groups = post_init_qs_groups env gs,
       qs_role = post_init_qs_role env (post_init_qs_groups env gs) \<rparr>"

definition create_if_not_exists_namespace :: "'w service \<Rightarrow> OktaUser \<Rightarrow> ('w, unit) prog" where
  "create_if_not_exists_namespace api user =
     except_ClientError
       (bnd (invoke api (DescribeNamespace (account_id user) (namespace user))) (\<lambda>_. ret ()))
       (\<lambda>_. bnd (invoke api (CreateNamespace (account_id user) (namespace user) ''QUICKSIGHT''))
          (\<lambda>_. bnd (sleep 120)
          (\<lambda>_. logger ''Namespace created'' [namespace user])))"

definition register_if_not_exists_user ::
  "'w service \<Rightarrow> user_env \<Rightarrow> OktaUser \<Rightarrow> ('w, unit) prog" where
  "register_if_not_exists_user api env user =
     except_ClientError
       (bnd (invoke api (DescribeUser (qs_username user) (account_id user) (namespace user)))
          (\<lambda>_. ret ()))
       (\<lambda>_. if qs_role user \<noteq> '''' then
               bnd (invoke api (RegisterUser ''IAM'' (email user) (qs_role user)
                      (''arn:aws:iam::'' @ account_id user @ '':role/'' @ OKTA_ROLE_NAME env)
                      (email user) (account_id user) (namespace user)))
                 (\<lambda>_. logger ''added to Namespace'' [qs_username user, namespace user])
             else ret ())"

definition delete_user :: "'w service \<Rightarrow> OktaUser \<Rightarrow> ('w, unit) prog" where
  "delete_user api user =
     bnd (invoke api (DeleteUser (qs_username user) (account_id user) (namespace user)))
       (\<lambda>_. logger ''deleted'' [qs_username user])"

definition update_role :: "'w service \<Rightarrow> OktaUser \<Rightarrow> ('w, bool) prog" where
  "update_role api user =
     except_ClientError
       (bnd (invoke api (UpdateUser (qs_username user) (account_id user) (namespace user)
               (qs_role user) (email user)))
          (\<lambda>_. bnd (logger ''role set to'' [qs_username user, qs_role user])
          (\<lambda>_. ret True)))
       (\<lambda>code. if code = ''ResourceNotFoundException''
                  \<or> code = ''InvalidParameterValueException''
                then bnd (delete_user api user) (\<lambda>_. ret False)
                else ret False)"

definition create_if_not_exists_groups :: "'w service \<Rightarrow> OktaUser \<Rightarrow> ('w, unit) prog" where
  "create_if_not_exists_groups api user =
     for_each (qs_groups user) (\<lambda>grp.
       except_ClientError
         (bnd (invoke api (DescribeGroup grp (account_id user) (namespace user))) (\<lambda>_. ret ()))
         (\<lambda>_. bnd (invoke api (CreateGroup grp (account_id user) (namespace user)))
            (\<lambda>_. bnd (sleep 3)
            (\<lambda>_. logger ''Group added to namespace'' [grp, namespace user]))))"

definition get_memberships :: "'w service \<Rightarrow> OktaUser \<Rightarrow> ('w, string list) prog" where
  "get_memberships api user =
     bnd (invoke api (ListUserGroups (qs_username user) (account_id user) (namespace user)))
       (\<lambda>r. case r of RGroupList names \<Rightarrow> ret names | _ \<Rightarrow> raise KeyError)"

definition update_memberships :: "'w service \<Rightarrow> OktaUser \<Rightarrow> ('w, unit) prog" where
  "update_memberships api user =
     bnd (get_memberships api user) (\<lambda>current_memberships.
     bnd (for_each (qs_groups user) (\<lambda>grp.
            if grp \<notin> set current_memberships then
              bnd (invoke api (CreateGroupMembership (qs_username user) grp
                     (account_id user) (namespace user)))
                (\<lambda>_. logger ''assigned to Group'' [qs_username user, grp])
            else ret ()))
       (\<lambda>_. for_each current_memberships (\<lambda>grp.
            if grp \<notin> set (qs_groups user) then
              bnd (invoke api (DeleteGroupMembership (qs_username user) grp
                     (account_id user) (namespace user)))
                (\<lambda>_. logger ''removed from Group'' [qs_username user, grp])
            else ret ())))"

definition apply_user_governance :: "'w service \<Rightarrow> user_env \<Rightarrow> OktaUser \<Rightarrow> ('w, unit) prog" where
  "apply_user_governance api env user =
     bnd (create_if_not_exists_namespace api user) (\<lambda>_.
     bnd (register_if_not_exists_user api env user) (\<lambda>_.
     bnd (update_role api user) (\<lambda>updated.
       if updated then
         (if qs_groups user \<noteq> [] then
            bnd (create_if_not_exists_groups api user) (\<lambda>_. update_memberships api user)
          else ret ())
       else ret ())))"

definition get_user_manifest :: "'w service \<Rightarrow> user_env \<Rightarrow> string \<Rightarrow> ('w, OktaUser list) prog" where
  \<comment> \<open>A body that is not a user manifest makes \<open>json.loads\<close>, \<open>json_data["users"]\<close> or the
      constructor raise; none of these is a ClientError.\<close>
  "get_user_manifest api env acct =
     bnd (except_ClientError
            (bnd (invoke api (GetObject (BUCKET env) (KEY env)))
               (\<lambda>r. case r of RUserManifest us \<Rightarrow> ret us | _ \<Rightarrow> raise KeyError))
            (\<lambda>code. bnd (logger ''Could not retrieve manifest file'' [code]) (\<lambda>_. ret [])))
       (\<lambda>users. ret (map (\<lambda>u. new_OktaUser env (m_username u) (m_email u) (m_groups u)
                                acct ''default'') users))"

definition USER_FAILURE_RESPONSE :: response where
  "USER_FAILURE_RESPONSE = (400, CHR 0x22 # ''QuickSight User Governance execution has failed'' @ [CHR 0x22])"

definition USER_SUCCESS_RESPONSE :: response where
  "USER_SUCCESS_RESPONSE = (200, CHR 0x22 # ''QuickSight User Governance execution complete'' @ [CHR 0x22])"

definition user_gov_handler :: "'w service \<Rightarrow> user_env \<Rightarrow> string \<Rightarrow> ('w, response) prog" where
  \<comment> \<open>\<open>acct\<close> is \<open>context.invoked_function_arn.split(":")[4]\<close>\<close>
  "user_gov_handler api env acct =
     bnd (logger ''event'' []) (\<lambda>_.
     bnd (get_user_manifest api env acct) (\<lambda>manifest.
       except_Exception
         (bnd (for_each manifest (apply_user_governance api env))
            (\<lambda>_. ret USER_SUCCESS_RESPONSE))
         (\<lambda>err. bnd (logger ''traceback'' []) (\<lambda>_. raise (Failed USER_FAILURE_RESPONSE)))))"


section \<open>Asset governance (qs_asset_gov.py)\<close>

record asset_env =
  ASSET_BUCKET :: string
  ASSET_KEY :: string
  REGION :: string

record QuickSightAsset =
  name :: string
  category :: string
  asset_namespace :: string
  asset_groups :: "string list"
  permission :: string
  asset_account_id :: string

definition READ_ACTIONS :: "string list" where
  "READ_ACTIONS =
     [''quicksight:DescribeDataSet'',
      ''quicksight:DescribeDataSetPermissions'',
      ''quicksight:PassDataSet'',
      ''quicksight:DescribeIngestion'',
      ''quicksight:ListIngestions'']"

definition ASSET_FAILURE_RESPONSE :: response where
  "ASSET_FAILURE_RESPONSE = (400, CHR 0x22 # ''QuickSight asset governance has failed'' @ [CHR 0x22])"

definition ASSET_SUCCESS_RESPONSE :: response where
  "ASSET_SUCCESS_RESPONSE = (200, CHR 0x22 # ''QuickSight asset governance execution complete'' @ [CHR 0x22])"

text \<open>
  The pagination loop of \<open>get_all_datasets\<close> runs for as long as the service hands out a
  NextToken, so it need not return: the result is an option, \<open>None\<close> for a run that
  never ends.
\<close>

partial_function (option) list_data_sets_while ::
  "'w service \<Rightarrow> string \<Rightarrow> string option \<Rightarrow> dataset_summary list \<Rightarrow> 'w \<Rightarrow> event list
     \<Rightarrow> ((exn + dataset_summary list) \<times> 'w \<times> event list) option" where
  "list_data_sets_while api acct next_token all_datasets w t =
     (case next_token of
        None \<Rightarrow> Some (Inr all_datasets, w, t)
      | Some tok \<Rightarrow>
          (case invoke api (ListDataSets acct (Some tok)) w of
             (Inl e, w1, t1) \<Rightarrow> Some (Inl e, w1, t @ t1)
           | (Inr r, w1, t1) \<Rightarrow>
               (case r of
                  RDataSets summaries tok' \<Rightarrow>
                    list_data_sets_while api acct tok' (all_datasets @ summaries) w1 (t @ t1)
                | _ \<Rightarrow> Some (Inl KeyError, w1, t @ t1))))"

definition get_all_datasets ::
  "'w service \<Rightarrow> string \<Rightarrow> 'w \<Rightarrow> ((exn + dataset_summary list) \<times> 'w \<times> event list) option" where
  "get_all_datasets api acct w =
     (case invoke api (ListDataSets acct None) w of
        (Inl e, w1, t1) \<Rightarrow> Some (Inl e, w1, t1)
      | (Inr r, w1, t1) \<Rightarrow>
          (case r of
             RDataSets summaries tok \<Rightarrow> list_data_sets_while api acct tok summaries w1 t1
           | _ \<Rightarrow> Some (Inl KeyError, w1, t1)))"

definition get_asset_manifest ::
  "'w service \<Rightarrow> asset_env \<Rightarrow> string \<Rightarrow> ('w, QuickSightAsset list) prog" where
  "get_asset_manifest api env acct =
     bnd (except_ClientError
            (bnd (invoke api (GetObject (ASSET_BUCKET env) (ASSET_KEY env)))
               (\<lambda>r. case r of RAssetManifest assets \<Rightarrow> ret assets | _ \<Rightarrow> raise KeyError))
            (\<lambda>code. bnd (logger ''Could not retrieve manifest file'' [code]) (\<lambda>_. ret [])))
       (\<lambda>assets. ret (map (\<lambda>a. \<lparr> name = m_name a, category = m_category a,
                                   asset_namespace = m_namespace a,
                                   asset_groups = m_asset_groups a,
                                   permission = m_permission a,
                                   asset_account_id = acct \<rparr>) assets))"

primrec get_dataset_id :: "QuickSightAsset \<Rightarrow> dataset_summary list \<Rightarrow> string" where
  "get_dataset_id asset [] = ''''"
| "get_dataset_id asset (dset # rest) =
     (if Name dset = name asset then DataSetId dset else get_dataset_id asset rest)"

definition group_principal :: "asset_env \<Rightarrow> QuickSightAsset \<Rightarrow> string \<Rightarrow> string" where
  "group_principal env asset grp =
     ''arn:aws:quicksight:'' @ REGION env @ '':'' @ asset_account_id asset @ '':group/''
       @ asset_namespace asset @ ''/'' @ grp"

definition apply_dataset_governance ::
  "'w service \<Rightarrow> asset_env \<Rightarrow> QuickSightAsset \<Rightarrow> string \<Rightarrow> ('w, unit) prog" where
  "apply_dataset_governance api env asset dataset_id =
     (let actions = (if permission asset = ''READ'' then ActionList READ_ACTIONS else EmptyStr)
      in for_each (asset_groups asset) (\<lambda>grp.
           except_ClientError
             (bnd (invoke api (GrantPermissions (asset_account_id asset) dataset_id
                     (group_principal env asset grp) actions))
                (\<lambda>_. logger ''permissions given to group''
                        [name asset, grp, asset_namespace asset]))
             (\<lambda>code. if code = ''InvalidParameterValueException''
                      then logger ''Failed to apply permissions''
                             [category asset, name asset, asset_namespace asset, grp]
                      else ret ())))"

definition reset_dataset_permissions ::
  "'w service \<Rightarrow> QuickSightAsset \<Rightarrow> string \<Rightarrow> ('w, unit) prog" where
  "reset_dataset_permissions api asset dataset_id =
     bnd (invoke api (DescribeDataSetPermissions (asset_account_id asset) dataset_id))
       (\<lambda>r. case r of
          RPermissions permissions \<Rightarrow>
            bnd (for_each permissions (\<lambda>perm.
                   if sublist ''group'' (Principal perm) then
                     except_ClientError
                       (bnd (invoke api (RevokePermissions (asset_account_id asset) dataset_id
                               (Principal perm) (Actions perm)))
                          (\<lambda>_. ret ()))
                       (\<lambda>code. if code = ''InvalidParameterValueException''
                                then logger ''Failed to apply permissions''
                                       [category asset, name asset, asset_namespace asset,
                                        Principal perm]
                                else ret ())
                   else ret ()))
              (\<lambda>_. logger ''Permissions reset'' [category asset, name asset])
        | _ \<Rightarrow> raise KeyError)"

definition handle_asset ::
  "'w service \<Rightarrow> asset_env \<Rightarrow> dataset_summary list \<Rightarrow> QuickSightAsset \<Rightarrow> ('w, unit) prog" where
  \<comment> \<open>the body of the handler's loop over the manifest\<close>
  "handle_asset api env all_datasets asset =
     (if category asset = ''dataset'' then
        (let dataset_id = get_dataset_id asset all_datasets
         in bnd (reset_dataset_permissions api asset dataset_id)
              (\<lambda>_. apply_dataset_governance api env asset dataset_id))
      else ret ())"

definition govern_assets ::
  "'w service \<Rightarrow> asset_env \<Rightarrow> dataset_summary list \<Rightarrow> QuickSightAsset list
     \<Rightarrow> ('w, response) prog" where
  \<comment> \<open>the handler's try block\<close>
  "govern_assets api env all_datasets manifest =
     except_Exception
       (bnd (for_each manifest (handle_asset api env all_datasets))
          (\<lambda>_. ret ASSET_SUCCESS_RESPONSE))
       (\<lambda>err. bnd (logger ''traceback'' []) (\<lambda>_. raise (Failed ASSET_FAILURE_RESPONSE)))"

definition asset_gov_handler ::
  "'w service \<Rightarrow> asset_env \<Rightarrow> string \<Rightarrow> 'w \<Rightarrow> ((exn + response) \<times> 'w \<times> event list) option" where
  \<comment> \<open>\<open>acct\<close> is \<open>context.invoked_function_arn.split(":")[4]\<close>\<close>
  "asset_gov_handler api env acct w =
     (case get_all_datasets api acct w of
        None \<Rightarrow> None
      | Some (Inl e, w1, t1) \<Rightarrow> Some (Inl e, w1, Log ''event'' [] # t1)
      | Some (Inr all_datasets, w1, t1) \<Rightarrow>
          (case bnd (get_asset_manifest api env acct)
                    (govern_assets api env all_datasets) w1 of
             (r, w2, t2) \<Rightarrow> Some (r, w2, Log ''event'' [] # t1 @ t2)))"


section \<open>The Okta fetcher (get_okta_info.py)\<close>

record okta_env =
  OKTA_BUCKET :: string
  OKTA_KEY :: string

definition OKTA_FAILURE_RESPONSE :: response where
  "OKTA_FAILURE_RESPONSE = (400, CHR 0x22 # ''Okta User Information Retrieval execution has failed'' @ [CHR 0x22])"

definition OKTA_SUCCESS_RESPONSE :: response where
  "OKTA_SUCCESS_RESPONSE = (200, CHR 0x22 # ''Okta User Information Retrieval execution complete'' @ [CHR 0x22])"

definition get_users :: "'w service \<Rightarrow> ('w, okta_app_user list) prog" where
  "get_users api =
     bnd (invoke api OktaAppUsers)
       (\<lambda>r. bnd (logger ''Retrieved Okta Users Information'' [])
       (\<lambda>_. case r of ROktaUsers users \<Rightarrow> ret users
                    | _ \<Rightarrow> raise (OtherException ''TypeError'')))"

definition get_users_groups :: "'w service \<Rightarrow> string \<Rightarrow> ('w, reply) prog" where
  \<comment> \<open>returns the decoded answer as it is; the caller reads the group names from it\<close>
  "get_users_groups api okta_user_id =
     bnd (invoke api (OktaUserGroups okta_user_id))
       (\<lambda>r. bnd (logger ''Retrieved Okta Users Groups Memberships'' [okta_user_id])
       (\<lambda>_. ret r))"

primrec build_users ::
  "'w service \<Rightarrow> okta_app_user list \<Rightarrow> manifest_user list \<Rightarrow> ('w, manifest_user list) prog" where
  \<comment> \<open>the loop of \<open>build_user_governance_manifest\<close>; the accumulator is
      \<open>user_manifest['users']\<close>.  An answer that is not a list of groups (an Okta error
      object) makes \<open>grp['profile']\<close> raise TypeError.\<close>
  "build_users api [] acc = ret acc"
| "build_users api (usr # rest) acc =
     bnd (get_users_groups api (okta_id usr))
       (\<lambda>group_memberships.
          case group_memberships of
            ROktaGroups grps \<Rightarrow>
              build_users api rest
                (acc @ [\<lparr> m_username = credentials_userName usr,
                          m_email = credentials_userName usr,
                          m_groups = grps \<rparr>])
          | _ \<Rightarrow> raise (OtherException ''TypeError''))"

definition build_user_governance_manifest ::
  "'w service \<Rightarrow> okta_app_user list \<Rightarrow> ('w, manifest_user list) prog" where
  "build_user_governance_manifest api users =
     bnd (build_users api users [])
       (\<lambda>user_manifest. bnd (logger ''user_manifest'' []) (\<lambda>_. ret user_manifest))"

definition upload_to_s3 :: "'w service \<Rightarrow> okta_env \<Rightarrow> manifest_user list \<Rightarrow> ('w, unit) prog" where
  "upload_to_s3 api env json_data =
     bnd (invoke api (PutObject (OKTA_BUCKET env) (OKTA_KEY env) json_data))
       (\<lambda>_. logger ''Manifest uploaded'' [OKTA_BUCKET env, OKTA_KEY env])"

definition okta_handler :: "'w service \<Rightarrow> okta_env \<Rightarrow> ('w, response) prog" where
  "okta_handler api env =
     bnd (logger ''event'' []) (\<lambda>_.
       except_Exception
         (bnd (get_users api) (\<lambda>users.
          bnd (build_user_governance_manifest api users) (\<lambda>manifest.
          bnd (upload_to_s3 api env manifest) (\<lambda>_. ret OKTA_SUCCESS_RESPONSE))))
         (\<lambda>err. bnd (logger ''traceback'' []) (\<lambda>_. raise (Failed OKTA_FAILURE_RESPONSE))))"


section \<open>Vocabulary of the properties\<close>

text \<open>The world a run ends in.\<close>

definition final :: "(exn + 'a) \<times> 'w \<times> event list \<Rightarrow> 'w" where
  "final r = fst (snd r)"

text \<open>Kinds of remote calls.\<close>

fun is_delete_user :: "call \<Rightarrow> bool" where
  "is_delete_user (DeleteUser u a n) = True"
| "is_delete_user c = False"

fun is_group_call :: "call \<Rightarrow> bool" where
  "is_group_call (DescribeGroup g a n) = True"
| "is_group_call (CreateGroup g a n) = True"
| "is_group_call (ListUserGroups u a n) = True"
| "is_group_call (CreateGroupMembership u g a n) = True"
| "is_group_call (DeleteGroupMembership u g a n) = True"
| "is_group_call c = False"

text \<open>The calls \<open>update_role\<close> and \<open>delete_user\<close> issue for a user.\<close>

definition update_user_call :: "OktaUser \<Rightarrow> call" where
  "update_user_call user =
     UpdateUser (qs_username user) (account_id user) (namespace user) (qs_role user) (email user)"

definition delete_user_call :: "OktaUser \<Rightarrow> call" where
  "delete_user_call user = DeleteUser (qs_username user) (account_id user) (namespace user)"

text \<open>
  The role ladder of the specification: the recognised role groups in priority order,
  each with the role it grants.  The resolved role is that of the first ladder entry whose
  group is among the relevant groups, and the empty role when there is none.
\<close>

definition priority_ladder :: "user_env \<Rightarrow> (string \<times> string) list" where
  "priority_ladder env =
     [(QS_ADMIN_OKTA_GROUP env, ''ADMIN''),
      (QS_AUTHOR_OKTA_GROUP env, ''AUTHOR''),
      (QS_READER_OKTA_GROUP env, ''READER'')]"

definition role_by_priority :: "user_env \<Rightarrow> string list \<Rightarrow> string" where
  "role_by_priority env relevant =
     (case find (\<lambda>(grp, role). grp \<in> set relevant) (priority_ladder env) of
        Some (grp, role) \<Rightarrow> role
      | None \<Rightarrow> '''')"

text \<open>
  Concrete services and inputs for evaluating runs.  A scripted service answers the calls
  it receives from a list of replies, in order, and with \<open>ROk\<close> once the list is used
  up.  The environment is the one the CDK stack (qs_governance_stack.py, config.py) gives
  the user-governance function.
\<close>

definition scripted :: "(reply list) service" where
  "scripted w c = (case w of [] \<Rightarrow> (ROk, []) | r # rest \<Rightarrow> (r, rest))"

definition stack_user_env :: "string \<Rightarrow> user_env" where
  "stack_user_env bucket_name =
     \<lparr> OKTA_ROLE_NAME = ''QSGovernance-FederatedQuickSightRole'',
       BUCKET = bucket_name,
       KEY = ''qs-user-governance.json'',
       QS_PREFIX = ''qs_'',
       QS_ADMIN_OKTA_GROUP = ''qs_role_admin'',
       QS_AUTHOR_OKTA_GROUP = ''qs_role_author'',
       QS_READER_OKTA_GROUP = ''qs_role_reader'' \<rparr>"

definition downgraded_user :: OktaUser where
  "downgraded_user =
     new_OktaUser (stack_user_env ''bucket'') ''a@x.com'' ''a@x.com'' [''Everyone'']
       ''111122223333'' ''default''"


text \<open>Calls that change the state of a remote service.\<close>

fun is_mutation :: "call \<Rightarrow> bool" where
  "is_mutation (DescribeNamespace a n) = False"
| "is_mutation (DescribeUser u a n) = False"
| "is_mutation (DescribeGroup g a n) = False"
| "is_mutation (ListUserGroups u a n) = False"
| "is_mutation (ListDataSets a tok) = False"
| "is_mutation (DescribeDataSetPermissions a d) = False"
| "is_mutation (GetObject b k) = False"
| "is_mutation OktaAppUsers = False"
| "is_mutation (OktaUserGroups i) = False"
| "is_mutation c = True"

text \<open>More calls by name.\<close>

definition list_user_groups_call :: "OktaUser \<Rightarrow> call" where
  "list_user_groups_call user =
     ListUserGroups (qs_username user) (account_id user) (namespace user)"

definition revoke_call :: "QuickSightAsset \<Rightarrow> string \<Rightarrow> permission_entry \<Rightarrow> call" where
  "revoke_call asset dataset_id perm =
     RevokePermissions (asset_account_id asset) dataset_id (Principal perm) (Actions perm)"

definition get_user_manifest_call :: "user_env \<Rightarrow> call" where
  "get_user_manifest_call env = GetObject (BUCKET env) (KEY env)"

definition get_asset_manifest_call :: "asset_env \<Rightarrow> call" where
  "get_asset_manifest_call env = GetObject (ASSET_BUCKET env) (ASSET_KEY env)"

text \<open>More concrete inputs: the asset-governance environment of the CDK stack, a reader,
  and a dataset asset.\<close>

definition stack_asset_env :: "string \<Rightarrow> string \<Rightarrow> asset_env" where
  "stack_asset_env bucket_name region =
     \<lparr> ASSET_BUCKET = bucket_name, ASSET_KEY = ''qs-asset-governance.json'', REGION = region \<rparr>"

definition reader_user :: OktaUser where
  "reader_user =
     new_OktaUser (stack_user_env ''bucket'') ''a@x.com'' ''a@x.com'' [''qs_role_reader'']
       ''111122223333'' ''default''"

definition sales_asset :: QuickSightAsset where
  "sales_asset =
     \<lparr> name = ''sales'', category = ''dataset'', asset_namespace = ''default'',
       asset_groups = [''qs_group_ops'', ''qs_group_finance''], permission = ''READ'',
       asset_account_id = ''111122223333'' \<rparr>"

definition sales_permissions :: "permission_entry list" where
  "sales_permissions =
     [\<lparr> Principal = ''arn:aws:quicksight:us-east-1:111122223333:user/default/workgroup-lead'',
        Actions = [''quicksight:DescribeDataSet''] \<rparr>,
      \<lparr> Principal = ''arn:aws:quicksight:us-east-1:111122223333:user/default/alice'',
        Actions = [''quicksight:DescribeDataSet''] \<rparr>,
      \<lparr> Principal = ''arn:aws:quicksight:us-east-1:111122223333:group/default/qs_group_hr'',
        Actions = READ_ACTIONS \<rparr>]"


text \<open>The manifest record \<open>build_user_governance_manifest\<close> appends for an Okta user
  whose groups are \<open>grps\<close>.\<close>

definition manifest_entry :: "okta_app_user \<Rightarrow> string list \<Rightarrow> manifest_user" where
  "manifest_entry usr grps =
     \<lparr> m_username = credentials_userName usr, m_email = credentials_userName usr,
       m_groups = grps \<rparr>"

text \<open>An Okta user whose e-mail attribute differs from the login name.\<close>

definition okta_alice :: okta_app_user where
  "okta_alice =
     \<lparr> okta_id = ''00u1'', credentials_userName = ''a@x.com'',
       profile = [(''email'', ''alice@corp.example'')] \<rparr>"


text \<open>The describe call of the reset and the grant for one group of an asset.\<close>

definition describe_permissions_call :: "QuickSightAsset \<Rightarrow> string \<Rightarrow> call" where
  "describe_permissions_call asset dataset_id =
     DescribeDataSetPermissions (asset_account_id asset) dataset_id"

definition grant_call :: "asset_env \<Rightarrow> QuickSightAsset \<Rightarrow> string \<Rightarrow> string \<Rightarrow> call" where
  "grant_call env asset dataset_id grp =
     GrantPermissions (asset_account_id asset) dataset_id (group_principal env asset grp)
       (if permission asset = ''READ'' then ActionList READ_ACTIONS else EmptyStr)"

text \<open>
  What the specification asks for one manifest entry of category "dataset", when the
  describe call answered with the permissions \<open>perms\<close>: the describe call, a revoke for
  every described permission of a group principal, then a grant for every group of the
  entry.
\<close>

definition entry_calls ::
  "asset_env \<Rightarrow> dataset_summary list \<Rightarrow> QuickSightAsset \<Rightarrow> permission_entry list \<Rightarrow> call list" where
  "entry_calls env all_datasets asset perms =
     describe_permissions_call asset (get_dataset_id asset all_datasets)
     # map (revoke_call asset (get_dataset_id asset all_datasets))
         (filter (\<lambda>perm. sublist ''group'' (Principal perm)) perms)
     @ map (grant_call env asset (get_dataset_id asset all_datasets)) (asset_groups asset)"

text \<open>The assets of category "dataset" that the job builds from a manifest, in manifest
  order.\<close>

definition dataset_assets :: "string \<Rightarrow> manifest_asset list \<Rightarrow> QuickSightAsset list" where
  "dataset_assets acct entries =
     filter (\<lambda>asset. category asset = ''dataset'')
       (map (\<lambda>a. \<lparr> name = m_name a, category = m_category a,
                   asset_namespace = m_namespace a,
                   asset_groups = m_asset_groups a,
                   permission = m_permission a,
                   asset_account_id = acct \<rparr>) entries)"

text \<open>The replies to the describe calls of a trace, in order; and the agreement of such
  replies with a list of permission lists: every reply that is a permission list is the
  entry at its position.\<close>

definition described :: "event list \<Rightarrow> reply list" where
  "described t =
     concat (map (\<lambda>ev. case ev of
                          Api c r \<Rightarrow> (case c of DescribeDataSetPermissions a d \<Rightarrow> [r] | _ \<Rightarrow> [])
                        | _ \<Rightarrow> []) t)"

definition agrees1 :: "reply \<Rightarrow> permission_entry list \<Rightarrow> bool" where
  "agrees1 r perms = (case r of RPermissions p \<Rightarrow> perms = p | _ \<Rightarrow> True)"

definition agrees :: "reply list \<Rightarrow> permission_entry list list \<Rightarrow> bool" where
  "agrees rs permss = list_all2 agrees1 rs (take (length rs) permss)"

text \<open>A grant on a dataset that is followed, later in the run, by a revoke on the same
  dataset.\<close>

fun grant_on :: "string \<Rightarrow> call \<Rightarrow> bool" where
  "grant_on d (GrantPermissions a d' p acts) = (d' = d)"
| "grant_on d c = False"

fun revoke_on :: "string \<Rightarrow> call \<Rightarrow> bool" where
  "revoke_on d (RevokePermissions a d' p acts) = (d' = d)"
| "revoke_on d c = False"

primrec grant_then_revoke :: "string \<Rightarrow> call list \<Rightarrow> bool" where
  "grant_then_revoke d [] = False"
| "grant_then_revoke d (c # cs) =
     ((grant_on d c \<and> list_ex (revoke_on d) cs) \<or> grant_then_revoke d cs)"

text \<open>More kinds of calls, and the user check of \<open>register_if_not_exists_user\<close>.\<close>

fun is_register_user :: "call \<Rightarrow> bool" where
  "is_register_user (RegisterUser t e r i s a n) = True"
| "is_register_user c = False"

definition describe_user_call :: "OktaUser \<Rightarrow> call" where
  "describe_user_call user = DescribeUser (qs_username user) (account_id user) (namespace user)"




text \<open>A user with a prefixed group but no role group.\<close>

definition unassigned_user :: OktaUser where
  "unassigned_user =
     new_OktaUser (stack_user_env ''bucket'') ''b@x.com'' ''b@x.com''
       [''Everyone'', ''qs_group_hr''] ''111122223333'' ''default''"

text \<open>An asset manifest whose first entry names no dataset of the account, and a service
  with the one dataset sales that rejects the empty dataset identifier.\<close>

definition missing_entry :: manifest_asset where
  "missing_entry =
     \<lparr> m_name = ''missing'', m_category = ''dataset'', m_namespace = ''default'',
       m_asset_groups = [''qs_group_ops''], m_permission = ''READ'' \<rparr>"

definition sales_entry :: manifest_asset where
  "sales_entry =
     \<lparr> m_name = ''sales'', m_category = ''dataset'', m_namespace = ''default'',
       m_asset_groups = [''qs_group_ops''], m_permission = ''READ'' \<rparr>"

definition unknown_dataset_service :: "unit service" where
  "unknown_dataset_service w c =
     (case c of
        ListDataSets a tok \<Rightarrow> (RDataSets [\<lparr>Name = ''sales'', DataSetId = ''ds-1''\<rparr>] None, w)
      | GetObject b k \<Rightarrow> (RAssetManifest [missing_entry, sales_entry], w)
      | DescribeDataSetPermissions a d \<Rightarrow>
          (if d = '''' then RErr (ClientError ''InvalidParameterValueException'')
           else RPermissions [], w)
      | GrantPermissions a d p acts \<Rightarrow>
          (if d = '''' then RErr (ClientError ''InvalidParameterValueException'') else ROk, w)
      | RevokePermissions a d p acts \<Rightarrow>
          (if d = '''' then RErr (ClientError ''InvalidParameterValueException'') else ROk, w)
      | _ \<Rightarrow> (ROk, w))"

text \<open>Two asset manifests over the one dataset sales of the account, each with a script of
  replies: one with a single entry, and one whose two entries share the dataset with
  groups of two namespaces.  In the second script the permissions described for the second
  entry are the ones granted for the first.\<close>

definition sales_script :: "reply list" where
  "sales_script =
     [RDataSets [\<lparr>Name = ''sales'', DataSetId = ''ds-1''\<rparr>] None,
      RAssetManifest [sales_entry],
      RPermissions sales_permissions]"

definition shared_entries :: "manifest_asset list" where
  "shared_entries =
     [\<lparr> m_name = ''sales'', m_category = ''dataset'', m_namespace = ''ns1'',
        m_asset_groups = [''g1''], m_permission = ''READ'' \<rparr>,
      \<lparr> m_name = ''sales'', m_category = ''dataset'', m_namespace = ''ns2'',
        m_asset_groups = [''g2''], m_permission = ''READ'' \<rparr>]"

definition shared_script :: "reply list" where
  "shared_script =
     [RDataSets [\<lparr>Name = ''sales'', DataSetId = ''ds-1''\<rparr>] None,
      RAssetManifest shared_entries,
      RPermissions
        [\<lparr> Principal = ''arn:aws:quicksight:us-east-1:111122223333:group/default/old'',
           Actions = READ_ACTIONS \<rparr>],
      ROk,
      ROk,
      RPermissions
        [\<lparr> Principal = ''arn:aws:quicksight:us-east-1:111122223333:group/ns1/g1'',
           Actions = READ_ACTIONS \<rparr>],
      ROk,
      ROk]"


section \<open>Basic facts about runs\<close>

lemma calls_Nil [simp]: "calls [] = []" by (simp add: calls_def)
lemma calls_Api [simp]: "calls (Api c r # t) = c # calls t" by (simp add: calls_def)
lemma calls_Log [simp]: "calls (Log m a # t) = calls t" by (simp add: calls_def)
lemma calls_Sleep [simp]: "calls (Sleep n # t) = calls t" by (simp add: calls_def)
lemma calls_append [simp]: "calls (t1 @ t2) = calls t1 @ calls t2" by (simp add: calls_def)

lemma Api_in_calls: "Api c r \<in> set t \<Longrightarrow> c \<in> set (calls t)"
proof (induction t)
  case Nil
  then show ?case by simp
next
  case (Cons a t)
  then show ?case by (cases a) auto
qed

lemma trace_ret [simp]: "trace (ret x w) = []" by (simp add: trace_def ret_def)
lemma trace_raise [simp]: "trace (raise e w) = []" by (simp add: trace_def raise_def)
lemma trace_logger [simp]: "trace (logger m a w) = [Log m a]" by (simp add: trace_def logger_def)
lemma trace_sleep [simp]: "trace (sleep n w) = [Sleep n]" by (simp add: trace_def sleep_def)
lemma trace_invoke [simp]: "trace (invoke api c w) = [Api c (fst (api w c))]"
  by (simp add: trace_def invoke_def split: prod.splits reply.splits)

lemma outcome_ret [simp]: "outcome (ret x w) = Inr x" by (simp add: outcome_def ret_def)
lemma outcome_raise [simp]: "outcome (raise e w) = Inl e" by (simp add: outcome_def raise_def)
lemma outcome_logger [simp]: "outcome (logger m a w) = Inr ()" by (simp add: outcome_def logger_def)
lemma outcome_sleep [simp]: "outcome (sleep n w) = Inr ()" by (simp add: outcome_def sleep_def)
lemma outcome_invoke: "outcome (invoke api c w) = (case fst (api w c) of RErr e \<Rightarrow> Inl e | r \<Rightarrow> Inr r)"
  by (simp add: outcome_def invoke_def split: prod.splits reply.splits)

lemma final_ret [simp]: "final (ret x w) = w" by (simp add: final_def ret_def)
lemma final_raise [simp]: "final (raise e w) = w" by (simp add: final_def raise_def)
lemma final_logger [simp]: "final (logger m a w) = w" by (simp add: final_def logger_def)
lemma final_sleep [simp]: "final (sleep n w) = w" by (simp add: final_def sleep_def)
lemma final_invoke [simp]: "final (invoke api c w) = snd (api w c)"
  by (simp add: final_def invoke_def split: prod.splits reply.splits)

lemma trace_bnd:
  "trace (bnd m f w) =
     trace (m w) @ (case outcome (m w) of Inl e \<Rightarrow> [] | Inr x \<Rightarrow> trace (f x (final (m w))))"
  by (simp add: bnd_def trace_def outcome_def final_def split: prod.splits sum.splits)

lemma outcome_bnd:
  "outcome (bnd m f w) =
     (case outcome (m w) of Inl e \<Rightarrow> Inl e | Inr x \<Rightarrow> outcome (f x (final (m w))))"
  by (simp add: bnd_def trace_def outcome_def final_def split: prod.splits sum.splits)

lemma final_bnd:
  "final (bnd m f w) =
     (case outcome (m w) of Inl e \<Rightarrow> final (m w) | Inr x \<Rightarrow> final (f x (final (m w))))"
  by (simp add: bnd_def trace_def outcome_def final_def split: prod.splits sum.splits)

lemma trace_except_ClientError:
  "trace (except_ClientError m h w) =
     trace (m w) @ (case outcome (m w) of Inl (ClientError c) \<Rightarrow> trace (h c (final (m w))) | _ \<Rightarrow> [])"
  by (simp add: except_ClientError_def trace_def outcome_def final_def split: prod.splits sum.splits exn.splits)

lemma outcome_except_ClientError:
  "outcome (except_ClientError m h w) =
     (case outcome (m w) of Inl (ClientError c) \<Rightarrow> outcome (h c (final (m w))) | r \<Rightarrow> r)"
  by (simp add: except_ClientError_def trace_def outcome_def final_def split: prod.splits sum.splits exn.splits)

lemma final_except_ClientError:
  "final (except_ClientError m h w) =
     (case outcome (m w) of Inl (ClientError c) \<Rightarrow> final (h c (final (m w))) | r \<Rightarrow> final (m w))"
  by (simp add: except_ClientError_def trace_def outcome_def final_def split: prod.splits sum.splits exn.splits)

lemma trace_except_Exception:
  "trace (except_Exception m h w) =
     trace (m w) @ (case outcome (m w) of Inl e \<Rightarrow> trace (h e (final (m w))) | _ \<Rightarrow> [])"
  by (simp add: except_Exception_def trace_def outcome_def final_def split: prod.splits sum.splits exn.splits)

lemma outcome_except_Exception:
  "outcome (except_Exception m h w) =
     (case outcome (m w) of Inl e \<Rightarrow> outcome (h e (final (m w))) | r \<Rightarrow> r)"
  by (simp add: except_Exception_def trace_def outcome_def final_def split: prod.splits sum.splits exn.splits)

lemmas run_simps = trace_bnd outcome_bnd final_bnd trace_except_ClientError
  outcome_except_ClientError final_except_ClientError trace_except_Exception
  outcome_except_Exception outcome_invoke

lemma calls_namespace:
  "set (calls (trace (create_if_not_exists_namespace api user w)))
     \<subseteq> {DescribeNamespace (account_id user) (namespace user),
         CreateNamespace (account_id user) (namespace user) ''QUICKSIGHT''}"
  by (auto simp: create_if_not_exists_namespace_def run_simps split: sum.splits exn.splits reply.splits)

lemma calls_register:
  "set (calls (trace (register_if_not_exists_user api env user w)))
     \<subseteq> {DescribeUser (qs_username user) (account_id user) (namespace user),
         RegisterUser ''IAM'' (email user) (qs_role user)
           (''arn:aws:iam::'' @ account_id user @ '':role/'' @ OKTA_ROLE_NAME env)
           (email user) (account_id user) (namespace user)}"
  by (auto simp: register_if_not_exists_user_def run_simps split: sum.splits exn.splits reply.splits)

lemma calls_for_each:
  "(\<And>x w. x \<in> set xs \<Longrightarrow> set (calls (trace (body x w))) \<subseteq> S)
     \<Longrightarrow> set (calls (trace (for_each xs body w))) \<subseteq> S"
  by (induction xs arbitrary: w) (auto simp: run_simps split: sum.splits)

lemma calls_groups:
  "set (calls (trace (create_if_not_exists_groups api user w))) \<subseteq> {c. is_group_call c}"
  unfolding create_if_not_exists_groups_def
  by (rule calls_for_each) (auto simp: run_simps split: sum.splits exn.splits reply.splits)

lemma calls_memberships:
  "set (calls (trace (update_memberships api user w))) \<subseteq> {c. is_group_call c}"
proof -
  have a: "\<And>cur w. set (calls (trace (for_each (qs_groups user) (\<lambda>grp.
            if grp \<notin> set cur then
              bnd (invoke api (CreateGroupMembership (qs_username user) grp
                     (account_id user) (namespace user)))
                (\<lambda>_. logger ''assigned to Group'' [qs_username user, grp])
            else ret ()) w))) \<subseteq> {c. is_group_call c}"
    by (rule calls_for_each) (auto simp: run_simps split: sum.splits exn.splits reply.splits)
  have b: "\<And>cur w. set (calls (trace (for_each cur (\<lambda>grp.
            if grp \<notin> set (qs_groups user) then
              bnd (invoke api (DeleteGroupMembership (qs_username user) grp
                     (account_id user) (namespace user)))
                (\<lambda>_. logger ''removed from Group'' [qs_username user, grp])
            else ret ()) w))) \<subseteq> {c. is_group_call c}"
    by (rule calls_for_each) (auto simp: run_simps split: sum.splits exn.splits reply.splits)
  show ?thesis
    unfolding update_memberships_def get_memberships_def
    using a b
    by (auto simp: run_simps split: sum.splits exn.splits reply.splits)
qed

lemma filter_calls_empty:
  "set (calls t) \<subseteq> S \<Longrightarrow> (\<And>c. c \<in> S \<Longrightarrow> \<not> P c) \<Longrightarrow> filter P (calls t) = []"
  by (auto simp: filter_empty_conv)

lemma calls_delete_user:
  "calls (trace (delete_user api user w)) = [DeleteUser (qs_username user) (account_id user) (namespace user)]"
  by (auto simp: delete_user_def run_simps split: sum.splits exn.splits reply.splits)

lemma update_role_failed:
  assumes "Api (update_user_call user) (RErr (ClientError code)) \<in> set (trace (update_role api user w))"
    and "code = ''ResourceNotFoundException'' \<or> code = ''InvalidParameterValueException''"
  shows "calls (trace (update_role api user w)) = [update_user_call user, delete_user_call user]"
    and "outcome (update_role api user w) \<noteq> Inr True"
  using assms
  by (auto simp: update_role_def update_user_call_def delete_user_call_def run_simps calls_delete_user
      delete_user_def split: sum.splits exn.splits reply.splits if_splits)

lemma update_role_calls:
  "calls (trace (update_role api user w)) = [update_user_call user] \<or>
   calls (trace (update_role api user w)) = [update_user_call user, delete_user_call user]"
  by (auto simp: update_role_def update_user_call_def delete_user_call_def run_simps calls_delete_user
      delete_user_def split: sum.splits exn.splits reply.splits if_splits)

lemma update_role_True:
  "outcome (update_role api user w) = Inr True \<Longrightarrow>
   (\<exists>r. trace (update_role api user w) = [Api (update_user_call user) r, Log ''role set to'' [qs_username user, qs_role user]]
      \<and> (\<forall>e. r \<noteq> RErr e))"
  by (auto simp: update_role_def update_user_call_def delete_user_call_def run_simps calls_delete_user
      delete_user_def split: sum.splits exn.splits reply.splits if_splits)

text \<open>
  Claim C1.  When the role update of a user fails, that is when the \<open>update_user\<close> call
  that \<open>update_role\<close> issues for the user raises a ClientError with code
  ResourceNotFoundException or InvalidParameterValueException, the run of
  \<open>apply_user_governance\<close> for that user issues exactly one \<open>delete_user\<close> call, the
  one for that user, and no group call at all (no describe, create, list, membership
  creation or membership deletion).
\<close>

theorem C1_failed_role_update_deletes_user:
  assumes upd: "Api (update_user_call user) (RErr (ClientError code))
             \<in> set (trace (apply_user_governance api env user w))"
    and code: "code = ''ResourceNotFoundException'' \<or> code = ''InvalidParameterValueException''"
  shows "filter is_delete_user (calls (trace (apply_user_governance api env user w)))
           = [delete_user_call user]
         \<and> filter is_group_call (calls (trace (apply_user_governance api env user w))) = []"
proof -
  let ?U = "Api (update_user_call user) (RErr (ClientError code))"
  let ?r1 = "create_if_not_exists_namespace api user w"
  let ?r2 = "register_if_not_exists_user api env user (final ?r1)"
  let ?r3 = "update_role api user (final ?r2)"
  have n1: "update_user_call user \<notin> set (calls (trace ?r1))"
    using calls_namespace[of api user w] by (auto simp: update_user_call_def)
  have n2: "update_user_call user \<notin> set (calls (trace ?r2))"
    using calls_register[of api env user "final ?r1"] by (auto simp: update_user_call_def)
  have U1: "?U \<notin> set (trace ?r1)" using n1 Api_in_calls by blast
  have U2: "?U \<notin> set (trace ?r2)" using n2 Api_in_calls by blast
  have d1: "filter is_delete_user (calls (trace ?r1)) = []"
    by (rule filter_calls_empty[OF calls_namespace]) auto
  have d2: "filter is_delete_user (calls (trace ?r2)) = []"
    by (rule filter_calls_empty[OF calls_register]) auto
  have g1: "filter is_group_call (calls (trace ?r1)) = []"
    by (rule filter_calls_empty[OF calls_namespace]) auto
  have g2: "filter is_group_call (calls (trace ?r2)) = []"
    by (rule filter_calls_empty[OF calls_register]) auto
  have G: "\<And>w'. ?U \<notin> set (trace (create_if_not_exists_groups api user w'))"
    using calls_groups Api_in_calls by (fastforce simp: update_user_call_def)
  have M: "\<And>w'. ?U \<notin> set (trace (update_memberships api user w'))"
    using calls_memberships Api_in_calls by (fastforce simp: update_user_call_def)
  have o1: "\<exists>u. outcome ?r1 = Inr u"
    using upd U1 by (cases "outcome ?r1") (auto simp: apply_user_governance_def trace_bnd)
  have o2: "\<exists>u. outcome ?r2 = Inr u"
    using upd U1 U2 o1 by (cases "outcome ?r2") (auto simp: apply_user_governance_def trace_bnd)
  have tr: "trace (apply_user_governance api env user w) =
      trace ?r1 @ trace ?r2 @ trace ?r3 @
        (case outcome ?r3 of Inr True \<Rightarrow>
           (if qs_groups user \<noteq> [] then
              trace (bnd (create_if_not_exists_groups api user) (\<lambda>_. update_memberships api user) (final ?r3))
            else [])
         | _ \<Rightarrow> [])"
    using o1 o2 by (auto simp: apply_user_governance_def trace_bnd split: sum.splits)
  have in3: "?U \<in> set (trace ?r3)"
  proof (cases "outcome ?r3 = Inr True")
    case True
    from update_role_True[OF True] obtain r where
      r: "trace ?r3 = [Api (update_user_call user) r, Log ''role set to'' [qs_username user, qs_role user]]"
         "\<forall>e. r \<noteq> RErr e" by blast
    have "?U \<notin> set (trace (bnd (create_if_not_exists_groups api user) (\<lambda>_. update_memberships api user) (final ?r3)))"
      using G M by (auto simp: trace_bnd split: sum.splits)
    with upd U1 U2 r True show ?thesis by (auto simp: tr split: if_splits)
  next
    case False
    with upd U1 U2 show ?thesis by (auto simp: tr split: sum.splits bool.splits)
  qed
  from update_role_failed[OF in3 code]
  have c3: "calls (trace ?r3) = [update_user_call user, delete_user_call user]"
    and o3: "outcome ?r3 \<noteq> Inr True" by auto
  have tr': "trace (apply_user_governance api env user w) = trace ?r1 @ trace ?r2 @ trace ?r3"
    using o3 by (auto simp: tr split: sum.splits bool.splits)
  show ?thesis
    by (simp add: tr' d1 d2 g1 g2 c3 update_user_call_def delete_user_call_def)
qed

lemmas exec_simps = bnd_def except_ClientError_def except_Exception_def invoke_def
  ret_def raise_def logger_def sleep_def trace_def outcome_def scripted_def

theorem C1_failed_role_update_deletes_user_witness:
  "Api (update_user_call downgraded_user) (RErr (ClientError ''InvalidParameterValueException''))
     \<in> set (trace (apply_user_governance scripted (stack_user_env ''bucket'') downgraded_user
           [ROk, ROk, RErr (ClientError ''InvalidParameterValueException''), ROk]))
   \<and> filter is_delete_user (calls (trace (apply_user_governance scripted
        (stack_user_env ''bucket'') downgraded_user
           [ROk, ROk, RErr (ClientError ''InvalidParameterValueException''), ROk])))
       = [delete_user_call downgraded_user]
   \<and> filter is_group_call (calls (trace (apply_user_governance scripted
        (stack_user_env ''bucket'') downgraded_user
           [ROk, ROk, RErr (ClientError ''InvalidParameterValueException''), ROk]))) = []"
proof -
  have h: "Api (update_user_call downgraded_user) (RErr (ClientError ''InvalidParameterValueException''))
     \<in> set (trace (apply_user_governance scripted (stack_user_env ''bucket'') downgraded_user
           [ROk, ROk, RErr (ClientError ''InvalidParameterValueException''), ROk]))"
    by (simp add: apply_user_governance_def create_if_not_exists_namespace_def
        register_if_not_exists_user_def update_role_def delete_user_def update_user_call_def
        exec_simps)
  show ?thesis using C1_failed_role_update_deletes_user[OF h] h by simp
qed

text \<open>
  Claim C2.  For every user record, \<open>qs_groups\<close> is the list of the user's groups that
  start with the prefix, and the resolved role is the priority lookup over these groups:
  ADMIN if the admin group is among them, else AUTHOR if the author group is, else READER
  if the reader group is, else the empty role.  So the role is one of these four values.
\<close>

theorem C2_role_is_priority_lookup:
  "qs_groups (new_OktaUser env un em gs acct ns) = filter (prefix (QS_PREFIX env)) gs
   \<and> qs_role (new_OktaUser env un em gs acct ns)
       = role_by_priority env (qs_groups (new_OktaUser env un em gs acct ns))
   \<and> qs_role (new_OktaUser env un em gs acct ns) \<in> {''ADMIN'', ''AUTHOR'', ''READER'', ''''}"
  by (simp add: new_OktaUser_def post_init_qs_groups_def post_init_qs_role_def
      role_by_priority_def priority_ladder_def)

lemma bnd_ret: "bnd (ret x) f w = f x w"
  by (simp add: bnd_def ret_def split: prod.splits)

lemma for_each_skip:
  "(\<And>x. x \<in> set xs \<Longrightarrow> body x = ret ()) \<Longrightarrow> for_each xs body w = ret () w"
  by (induction xs arbitrary: w) (simp_all add: bnd_ret)

text \<open>
  Claim C4.  Membership reconciliation is idempotent: when the memberships QuickSight
  lists for the user are, as a set, the user's prefix-filtered manifest groups (the state a
  completed run leaves behind), \<open>update_memberships\<close> returns normally and its only remote
  call is \<open>list_user_groups\<close>: no \<open>create_group_membership\<close> and no
  \<open>delete_group_membership\<close> call is issued.
\<close>

theorem C4_membership_reconciliation_idempotent:
  assumes "fst (api w (list_user_groups_call user)) = RGroupList memberships"
    and "set memberships = set (qs_groups user)"
  shows "calls (trace (update_memberships api user w)) = [list_user_groups_call user]
         \<and> outcome (update_memberships api user w) = Inr ()"
proof -
  have a: "\<And>w'. for_each (qs_groups user) (\<lambda>grp.
            if grp \<notin> set memberships then
              bnd (invoke api (CreateGroupMembership (qs_username user) grp
                     (account_id user) (namespace user)))
                (\<lambda>_. logger ''assigned to Group'' [qs_username user, grp])
            else ret ()) w' = ret () w'"
    by (rule for_each_skip) (simp add: assms(2))
  have b: "\<And>w'. for_each memberships (\<lambda>grp.
            if grp \<notin> set (qs_groups user) then
              bnd (invoke api (DeleteGroupMembership (qs_username user) grp
                     (account_id user) (namespace user)))
                (\<lambda>_. logger ''removed from Group'' [qs_username user, grp])
            else ret ()) w' = ret () w'"
    by (rule for_each_skip) (simp add: assms(2))
  show ?thesis
    using assms(1)
    by (simp add: update_memberships_def get_memberships_def run_simps a b
        list_user_groups_call_def)
qed

theorem C4_membership_reconciliation_idempotent_witness:
  "fst (scripted [RGroupList [''qs_role_reader'']] (list_user_groups_call reader_user))
     = RGroupList [''qs_role_reader'']
   \<and> set [''qs_role_reader''] = set (qs_groups reader_user)
   \<and> calls (trace (update_memberships scripted reader_user [RGroupList [''qs_role_reader'']]))
       = [list_user_groups_call reader_user]
   \<and> outcome (update_memberships scripted reader_user [RGroupList [''qs_role_reader'']]) = Inr ()"
proof -
  have a: "fst (scripted [RGroupList [''qs_role_reader'']] (list_user_groups_call reader_user))
     = RGroupList [''qs_role_reader'']"
    by (simp add: scripted_def)
  have b: "set [''qs_role_reader''] = set (qs_groups reader_user)"
    by (simp add: reader_user_def new_OktaUser_def post_init_qs_groups_def stack_user_env_def)
  show ?thesis
    using C4_membership_reconciliation_idempotent[where api = scripted
        and w = "[RGroupList [''qs_role_reader'']]" and user = reader_user
        and memberships = "[''qs_role_reader'']"] a b
    by simp
qed

lemma reset_loop_calls:
  "outcome (for_each perms (\<lambda>perm.
       if sublist ''group'' (Principal perm) then
         except_ClientError
           (bnd (invoke api (RevokePermissions (asset_account_id asset) dataset_id
                   (Principal perm) (Actions perm)))
              (\<lambda>_. ret ()))
           (\<lambda>code. if code = ''InvalidParameterValueException''
                    then logger ''Failed to apply permissions''
                           [category asset, name asset, asset_namespace asset,
                            Principal perm]
                    else ret ())
       else ret ()) w) = Inr ()
   \<Longrightarrow> calls (trace (for_each perms (\<lambda>perm.
       if sublist ''group'' (Principal perm) then
         except_ClientError
           (bnd (invoke api (RevokePermissions (asset_account_id asset) dataset_id
                   (Principal perm) (Actions perm)))
              (\<lambda>_. ret ()))
           (\<lambda>code. if code = ''InvalidParameterValueException''
                    then logger ''Failed to apply permissions''
                           [category asset, name asset, asset_namespace asset,
                            Principal perm]
                    else ret ())
       else ret ()) w))
     = map (revoke_call asset dataset_id) (filter (\<lambda>perm. sublist ''group'' (Principal perm)) perms)"
proof (induction perms arbitrary: w)
  case Nil
  then show ?case by simp
next
  case (Cons p ps)
  then show ?case
    by (auto simp: run_simps revoke_call_def split: sum.splits exn.splits reply.splits if_splits)
qed

lemma reset_dataset_permissions_calls:
  assumes "fst (api w (DescribeDataSetPermissions (asset_account_id asset) dataset_id))
             = RPermissions permissions"
    and "outcome (reset_dataset_permissions api asset dataset_id w) = Inr ()"
  shows "calls (trace (reset_dataset_permissions api asset dataset_id w))
           = DescribeDataSetPermissions (asset_account_id asset) dataset_id
             # map (revoke_call asset dataset_id)
                 (filter (\<lambda>perm. sublist ''group'' (Principal perm)) permissions)"
  using assms
  by (auto simp: reset_dataset_permissions_def run_simps reset_loop_calls
      split: sum.splits)

text \<open>
  Claim C9.  The permission reset selects what to revoke by a substring test on the
  principal: when the permissions of the dataset are described and the reset runs to its
  end, the calls it issues are the describe call followed by one revoke for each described
  entry whose principal contains the substring "group", in the described order, and for no
  other entry.  The test does not look at where "group" occurs, so a user principal such as
  \<open>user/default/workgroup-lead\<close> is revoked as well (the evaluated run below).
\<close>

theorem C9_reset_revokes_by_substring:
  assumes "fst (api w (DescribeDataSetPermissions (asset_account_id asset) dataset_id))
             = RPermissions permissions"
    and "outcome (reset_dataset_permissions api asset dataset_id w) = Inr ()"
  shows "calls (trace (reset_dataset_permissions api asset dataset_id w))
           = DescribeDataSetPermissions (asset_account_id asset) dataset_id
             # map (revoke_call asset dataset_id)
                 (filter (\<lambda>perm. sublist ''group'' (Principal perm)) permissions)"
  using assms by (rule reset_dataset_permissions_calls)

theorem C9_reset_revokes_by_substring_witness:
  "fst (scripted [RPermissions sales_permissions]
          (DescribeDataSetPermissions (asset_account_id sales_asset) ''ds-1''))
     = RPermissions sales_permissions
   \<and> outcome (reset_dataset_permissions scripted sales_asset ''ds-1''
                [RPermissions sales_permissions]) = Inr ()
   \<and> calls (trace (reset_dataset_permissions scripted sales_asset ''ds-1''
                      [RPermissions sales_permissions]))
       = [DescribeDataSetPermissions ''111122223333'' ''ds-1'',
          RevokePermissions ''111122223333'' ''ds-1''
            ''arn:aws:quicksight:us-east-1:111122223333:user/default/workgroup-lead''
            [''quicksight:DescribeDataSet''],
          RevokePermissions ''111122223333'' ''ds-1''
            ''arn:aws:quicksight:us-east-1:111122223333:group/default/qs_group_hr''
            READ_ACTIONS]"
proof -
  have a: "fst (scripted [RPermissions sales_permissions]
          (DescribeDataSetPermissions (asset_account_id sales_asset) ''ds-1''))
     = RPermissions sales_permissions"
    by (simp add: scripted_def)
  have b: "outcome (reset_dataset_permissions scripted sales_asset ''ds-1''
                [RPermissions sales_permissions]) = Inr ()"
    by (simp add: reset_dataset_permissions_def sales_permissions_def sublist_code(3) exec_simps)
  show ?thesis
    using C9_reset_revokes_by_substring[where api = scripted
        and w = "[RPermissions sales_permissions]" and asset = sales_asset
        and dataset_id = "''ds-1''" and permissions = sales_permissions] a b
    by (simp add: sales_permissions_def sales_asset_def revoke_call_def sublist_code(3))
qed

lemma list_data_sets_while_calls:
  assumes "list_data_sets_while api acct tok acc w t = Some res"
  shows "\<exists>t'. trace res = t @ t' \<and> filter is_mutation (calls t') = []"
proof (rule list_data_sets_while.raw_induct[where
      P = "\<lambda>api acct tok acc w t res. \<exists>t'. trace res = t @ t' \<and> filter is_mutation (calls t') = []",
      OF _ assms], goal_cases)
  case (1 f api acct tok acc w t res)
  show ?case
  proof (cases tok)
    case None
    with 1(2) show ?thesis by (auto simp: trace_def)
  next
    case (Some k)
    obtain r w1 where a: "api w (ListDataSets acct (Some k)) = (r, w1)" by (cases "api w (ListDataSets acct (Some k))")
    show ?thesis
    proof (cases r)
      case (RDataSets ds tok')
      with 1(2) Some a have "f api acct tok' (acc @ ds) w1 (t @ [Api (ListDataSets acct (Some k)) r]) = Some res"
        by (simp add: invoke_def)
      from 1(1)[OF this] show ?thesis by auto
    qed (use 1(2) Some a in \<open>auto simp: invoke_def trace_def\<close>)
  qed
qed

lemma get_all_datasets_calls:
  assumes "get_all_datasets api acct w = Some res"
  shows "filter is_mutation (calls (trace res)) = []"
proof -
  obtain r w1 where a: "api w (ListDataSets acct None) = (r, w1)" by (cases "api w (ListDataSets acct None)")
  show ?thesis
  proof (cases r)
    case (RDataSets ds tok)
    with assms a have "list_data_sets_while api acct tok ds w1 [Api (ListDataSets acct None) r] = Some res"
      by (simp add: get_all_datasets_def invoke_def)
    from list_data_sets_while_calls[OF this] show ?thesis by auto
  qed (use assms a in \<open>auto simp: get_all_datasets_def invoke_def trace_def\<close>)
qed
lemma asset_gov_handler_Some:
  assumes "get_all_datasets api acct w = Some (Inr all_datasets, w1, t1)"
  shows "map_option outcome (asset_gov_handler api env acct w)
           = Some (outcome (bnd (get_asset_manifest api env acct)
                              (govern_assets api env all_datasets) w1))"
    and "map_option trace (asset_gov_handler api env acct w)
           = Some (Log ''event'' [] # t1 @
                   trace (bnd (get_asset_manifest api env acct)
                            (govern_assets api env all_datasets) w1))"
  using assms
  by (cases "bnd (get_asset_manifest api env acct) (govern_assets api env all_datasets) w1";
      simp add: asset_gov_handler_def outcome_def trace_def)+

text \<open>
  Claim C7.  In both governance jobs a manifest retrieval that fails with a ClientError is
  logged and the manifest is taken to be empty.  The user job then returns its success
  response, and its whole trace is the event line, the failed \<open>get_object\<close> call and the
  log line.  The asset job lists the datasets before it reads the manifest; once that
  listing has returned, the job returns its success response, and its trace is the event
  line, the listing (which holds no mutating call), the failed \<open>get_object\<close> call and the
  log line.  So neither job issues a remote mutation.
\<close>

theorem C7_manifest_failure_is_noop:
  "(fst (api w (get_user_manifest_call uenv)) = RErr (ClientError code) \<longrightarrow>
      outcome (user_gov_handler api uenv acct w) = Inr USER_SUCCESS_RESPONSE
      \<and> trace (user_gov_handler api uenv acct w)
          = [Log ''event'' [],
             Api (get_user_manifest_call uenv) (RErr (ClientError code)),
             Log ''Could not retrieve manifest file'' [code]])
   \<and> (get_all_datasets api acct w = Some (Inr all_datasets, w1, t1)
       \<and> fst (api w1 (get_asset_manifest_call aenv)) = RErr (ClientError code) \<longrightarrow>
      map_option outcome (asset_gov_handler api aenv acct w) = Some (Inr ASSET_SUCCESS_RESPONSE)
      \<and> map_option trace (asset_gov_handler api aenv acct w)
          = Some (Log ''event'' [] # t1 @
                  [Api (get_asset_manifest_call aenv) (RErr (ClientError code)),
                   Log ''Could not retrieve manifest file'' [code]])
      \<and> filter is_mutation (calls t1) = [])"
proof (intro conjI impI)
  assume a: "fst (api w (get_user_manifest_call uenv)) = RErr (ClientError code)"
  then show "outcome (user_gov_handler api uenv acct w) = Inr USER_SUCCESS_RESPONSE"
    by (simp add: user_gov_handler_def get_user_manifest_def get_user_manifest_call_def run_simps)
  from a show "trace (user_gov_handler api uenv acct w)
          = [Log ''event'' [],
             Api (get_user_manifest_call uenv) (RErr (ClientError code)),
             Log ''Could not retrieve manifest file'' [code]]"
    by (simp add: user_gov_handler_def get_user_manifest_def get_user_manifest_call_def run_simps)
next
  assume b: "get_all_datasets api acct w = Some (Inr all_datasets, w1, t1)
       \<and> fst (api w1 (get_asset_manifest_call aenv)) = RErr (ClientError code)"
  let ?m = "bnd (get_asset_manifest api aenv acct) (govern_assets api aenv all_datasets) w1"
  have o: "outcome ?m = Inr ASSET_SUCCESS_RESPONSE"
    using b by (simp add: get_asset_manifest_def govern_assets_def get_asset_manifest_call_def run_simps)
  have t: "trace ?m = [Api (get_asset_manifest_call aenv) (RErr (ClientError code)),
                   Log ''Could not retrieve manifest file'' [code]]"
    using b by (simp add: get_asset_manifest_def govern_assets_def get_asset_manifest_call_def run_simps)
  from b o show "map_option outcome (asset_gov_handler api aenv acct w) = Some (Inr ASSET_SUCCESS_RESPONSE)"
    by (simp add: asset_gov_handler_Some)
  from b t show "map_option trace (asset_gov_handler api aenv acct w)
          = Some (Log ''event'' [] # t1 @
                  [Api (get_asset_manifest_call aenv) (RErr (ClientError code)),
                   Log ''Could not retrieve manifest file'' [code]])"
    by (simp add: asset_gov_handler_Some)
  from b get_all_datasets_calls[of api acct w "(Inr all_datasets, w1, t1)"]
  show "filter is_mutation (calls t1) = []" by (simp add: trace_def)
qed
theorem C7_manifest_failure_is_noop_witness:
  "(fst (scripted [RErr (ClientError ''NoSuchKey'')] (get_user_manifest_call (stack_user_env ''bucket'')))
      = RErr (ClientError ''NoSuchKey'')
    \<and> outcome (user_gov_handler scripted (stack_user_env ''bucket'') ''111122223333''
          [RErr (ClientError ''NoSuchKey'')]) = Inr USER_SUCCESS_RESPONSE)
   \<and> (get_all_datasets scripted ''111122223333'' [RDataSets [] None, RErr (ClientError ''NoSuchKey'')]
        = Some (Inr [], [RErr (ClientError ''NoSuchKey'')],
                [Api (ListDataSets ''111122223333'' None) (RDataSets [] None)])
      \<and> fst (scripted [RErr (ClientError ''NoSuchKey'')]
            (get_asset_manifest_call (stack_asset_env ''bucket'' ''us-east-1'')))
          = RErr (ClientError ''NoSuchKey'')
      \<and> map_option outcome (asset_gov_handler scripted (stack_asset_env ''bucket'' ''us-east-1'')
           ''111122223333'' [RDataSets [] None, RErr (ClientError ''NoSuchKey'')])
          = Some (Inr ASSET_SUCCESS_RESPONSE))"
proof -
  have u: "fst (scripted [RErr (ClientError ''NoSuchKey'')] (get_user_manifest_call (stack_user_env ''bucket'')))
      = RErr (ClientError ''NoSuchKey'')"
    by (simp add: scripted_def)
  have l: "get_all_datasets scripted ''111122223333'' [RDataSets [] None, RErr (ClientError ''NoSuchKey'')]
        = Some (Inr [], [RErr (ClientError ''NoSuchKey'')],
                [Api (ListDataSets ''111122223333'' None) (RDataSets [] None)])"
    by (simp add: get_all_datasets_def list_data_sets_while.simps invoke_def scripted_def)
  have a: "fst (scripted [RErr (ClientError ''NoSuchKey'')]
            (get_asset_manifest_call (stack_asset_env ''bucket'' ''us-east-1'')))
      = RErr (ClientError ''NoSuchKey'')"
    by (simp add: scripted_def)
  have c1: "outcome (user_gov_handler scripted (stack_user_env ''bucket'') ''111122223333''
          [RErr (ClientError ''NoSuchKey'')]) = Inr USER_SUCCESS_RESPONSE"
    using C7_manifest_failure_is_noop[where api = scripted and w = "[RErr (ClientError ''NoSuchKey'')]"
        and uenv = "stack_user_env ''bucket''" and code = "''NoSuchKey''"
        and acct = "''111122223333''"] u
    by simp
  have c2: "map_option outcome (asset_gov_handler scripted (stack_asset_env ''bucket'' ''us-east-1'')
           ''111122223333'' [RDataSets [] None, RErr (ClientError ''NoSuchKey'')])
          = Some (Inr ASSET_SUCCESS_RESPONSE)"
    using C7_manifest_failure_is_noop[where api = scripted and w = "[RDataSets [] None, RErr (ClientError ''NoSuchKey'')]"
        and aenv = "stack_asset_env ''bucket'' ''us-east-1''" and code = "''NoSuchKey''"
        and acct = "''111122223333''" and ?w1.0 = "[RErr (ClientError ''NoSuchKey'')]"
        and all_datasets = "[]"
        and ?t1.0 = "[Api (ListDataSets ''111122223333'' None) (RDataSets [] None)]"] l a
    by simp
  show ?thesis using u l a c1 c2 by simp
qed

lemma build_users_result:
  "outcome (build_users api users acc w) = Inr m \<Longrightarrow>
     \<exists>gss. length gss = length users \<and> m = acc @ map2 manifest_entry users gss"
proof (induction users arbitrary: acc w)
  case Nil
  then show ?case by simp
next
  case (Cons usr rest)
  from Cons.prems obtain grps where
    r: "outcome (build_users api rest (acc @ [manifest_entry usr grps])
          (final (get_users_groups api (okta_id usr) w))) = Inr m"
    by (auto simp: run_simps manifest_entry_def get_users_groups_def
        split: sum.splits reply.splits)
  from Cons.IH[OF r] obtain gss where
    "length gss = length rest" "m = (acc @ [manifest_entry usr grps]) @ map2 manifest_entry rest gss"
    by blast
  then have "length (grps # gss) = length (usr # rest)
      \<and> m = acc @ map2 manifest_entry (usr # rest) (grps # gss)" by simp
  then show ?case by blast
qed

lemma build_users_ignores_profile:
  "build_users api (map (\<lambda>u. u\<lparr>profile := p u\<rparr>) users) acc = build_users api users acc"
proof (induction users arbitrary: acc)
  case Nil
  then show ?case by simp
next
  case (Cons usr rest)
  then show ?case by (simp cong: reply.case_cong)
qed

text \<open>
  Claim C10.  When the Okta fetcher builds a manifest, every record of it has its email
  field equal to its username field, and the usernames are the \<open>credentials.userName\<close> of
  the Okta users, in order.  The other attributes of an Okta user, the e-mail address of
  its profile among them, are never read: replacing them changes nothing in the run.
\<close>

theorem C10_manifest_email_is_username:
  assumes "outcome (build_user_governance_manifest api users w) = Inr manifest"
  shows "list_all (\<lambda>u. m_email u = m_username u) manifest
         \<and> map m_username manifest = map credentials_userName users
         \<and> build_user_governance_manifest api (map (\<lambda>u. u\<lparr>profile := p u\<rparr>) users) w
             = build_user_governance_manifest api users w"
proof -
  from assms have "outcome (build_users api users [] w) = Inr manifest"
    by (auto simp: build_user_governance_manifest_def run_simps split: sum.splits)
  from build_users_result[OF this] obtain gss where
    g: "length gss = length users" "manifest = map2 manifest_entry users gss" by auto
  have a: "list_all (\<lambda>u. m_email u = m_username u) manifest"
    using g by (auto simp: list_all_iff manifest_entry_def)
  have "map m_username (map2 manifest_entry users gss) = map credentials_userName users"
    using g(1)[symmetric]
    by (induction users gss rule: list_induct2) (simp_all add: manifest_entry_def)
  then have b: "map m_username manifest = map credentials_userName users"
    using g by simp
  have c: "build_user_governance_manifest api (map (\<lambda>u. u\<lparr>profile := p u\<rparr>) users) w
             = build_user_governance_manifest api users w"
    by (simp add: build_user_governance_manifest_def bnd_def build_users_ignores_profile)
  from a b c show ?thesis by simp
qed

theorem C10_manifest_email_is_username_witness:
  "outcome (build_user_governance_manifest scripted [okta_alice]
              [ROktaGroups [''Everyone'', ''qs_role_reader'']])
     = Inr [\<lparr> m_username = ''a@x.com'', m_email = ''a@x.com'',
               m_groups = [''Everyone'', ''qs_role_reader''] \<rparr>]
   \<and> list_all (\<lambda>u. m_email u = m_username u)
         [\<lparr> m_username = ''a@x.com'', m_email = ''a@x.com'',
            m_groups = [''Everyone'', ''qs_role_reader''] \<rparr>]
   \<and> map m_username [\<lparr> m_username = ''a@x.com'', m_email = ''a@x.com'',
                          m_groups = [''Everyone'', ''qs_role_reader''] \<rparr>]
       = map credentials_userName [okta_alice]"
proof -
  have a: "outcome (build_user_governance_manifest scripted [okta_alice]
              [ROktaGroups [''Everyone'', ''qs_role_reader'']])
     = Inr [\<lparr> m_username = ''a@x.com'', m_email = ''a@x.com'',
               m_groups = [''Everyone'', ''qs_role_reader''] \<rparr>]"
    by (simp add: build_user_governance_manifest_def get_users_groups_def okta_alice_def
        exec_simps)
  show ?thesis
    using C10_manifest_email_is_username[where api = scripted and users = "[okta_alice]"
        and w = "[ROktaGroups [''Everyone'', ''qs_role_reader'']]", OF a] a
    by simp
qed

lemma described_Nil [simp]: "described [] = []" by (simp add: described_def)
lemma described_append [simp]: "described (t1 @ t2) = described t1 @ described t2"
  by (simp add: described_def)
lemma described_Log [simp]: "described (Log m a # t) = described t" by (simp add: described_def)
lemma described_Sleep [simp]: "described (Sleep n # t) = described t" by (simp add: described_def)
lemma described_Describe [simp]:
  "described (Api (DescribeDataSetPermissions a d) r # t) = r # described t"
  by (simp add: described_def)
lemma described_Grant [simp]:
  "described (Api (GrantPermissions a d p acts) r # t) = described t"
  by (simp add: described_def)
lemma described_Revoke [simp]:
  "described (Api (RevokePermissions a d p acts) r # t) = described t"
  by (simp add: described_def)
lemma described_GetObject [simp]:
  "described (Api (GetObject b k) r # t) = described t"
  by (simp add: described_def)

lemma for_each_calls_prefix:
  assumes "\<And>x w. x \<in> set xs \<Longrightarrow> calls (trace (body x w)) = f x"
  shows "prefix (calls (trace (for_each xs body w))) (concat (map f xs))"
    and "outcome (for_each xs body w) = Inr () \<Longrightarrow>
           calls (trace (for_each xs body w)) = concat (map f xs)"
  using assms
proof (induction xs arbitrary: w)
  case Nil
  { case 1 show ?case by simp }
  { case 2 show ?case by simp }
next
  case (Cons x xs)
  { case 1
    have "prefix (calls (trace (for_each xs body w'))) (concat (map f xs))" for w'
      using Cons.IH(1) 1 by simp
    then show ?case using 1 by (cases "outcome (body x w)") (simp_all add: trace_bnd) }
  { case 2
    from 2(1) obtain u where o: "outcome (body x w) = Inr u"
      by (cases "outcome (body x w)") (simp_all add: outcome_bnd)
    with 2(1) have "outcome (for_each xs body (final (body x w))) = Inr ()"
      by (simp add: outcome_bnd)
    then have "calls (trace (for_each xs body (final (body x w)))) = concat (map f xs)"
      using Cons.IH(2) 2(2) by simp
    then show ?case using o 2(2) by (simp add: trace_bnd) }
qed

lemma for_each_described_none:
  "(\<And>x w. x \<in> set xs \<Longrightarrow> described (trace (body x w)) = [])
     \<Longrightarrow> described (trace (for_each xs body w)) = []"
  by (induction xs arbitrary: w) (auto simp: trace_bnd split: sum.splits)

lemma concat_map_filter:
  "concat (map (\<lambda>x. if P x then [f x] else []) xs) = map f (filter P xs)"
  by (induction xs) auto

lemma reset_loop_prefix:
  "prefix (calls (trace (for_each perms (\<lambda>perm.
       if sublist ''group'' (Principal perm) then
         except_ClientError
           (bnd (invoke api (RevokePermissions (asset_account_id asset) dataset_id
                   (Principal perm) (Actions perm)))
              (\<lambda>_. ret ()))
           (\<lambda>code. if code = ''InvalidParameterValueException''
                    then logger ''Failed to apply permissions''
                           [category asset, name asset, asset_namespace asset,
                            Principal perm]
                    else ret ())
       else ret ()) w)))
     (map (revoke_call asset dataset_id) (filter (\<lambda>perm. sublist ''group'' (Principal perm)) perms))"
  unfolding concat_map_filter[symmetric]
  by (rule for_each_calls_prefix(1))
     (auto simp: run_simps revoke_call_def split: sum.splits exn.splits)

lemma reset_loop_described:
  "described (trace (for_each perms (\<lambda>perm.
       if sublist ''group'' (Principal perm) then
         except_ClientError
           (bnd (invoke api (RevokePermissions (asset_account_id asset) dataset_id
                   (Principal perm) (Actions perm)))
              (\<lambda>_. ret ()))
           (\<lambda>code. if code = ''InvalidParameterValueException''
                    then logger ''Failed to apply permissions''
                           [category asset, name asset, asset_namespace asset,
                            Principal perm]
                    else ret ())
       else ret ()) w)) = []"
  by (rule for_each_described_none)
     (auto simp: run_simps split: sum.splits exn.splits)

lemma apply_dataset_governance_calls:
  "prefix (calls (trace (apply_dataset_governance api env asset dataset_id w)))
          (map (grant_call env asset dataset_id) (asset_groups asset))"
  "outcome (apply_dataset_governance api env asset dataset_id w) = Inr () \<Longrightarrow>
     calls (trace (apply_dataset_governance api env asset dataset_id w))
       = map (grant_call env asset dataset_id) (asset_groups asset)"
proof -
  have b: "calls (trace (except_ClientError
             (bnd (invoke api (GrantPermissions (asset_account_id asset) dataset_id
                     (group_principal env asset grp)
                     (if permission asset = ''READ'' then ActionList READ_ACTIONS else EmptyStr)))
                (\<lambda>_. logger ''permissions given to group''
                        [name asset, grp, asset_namespace asset]))
             (\<lambda>code. if code = ''InvalidParameterValueException''
                      then logger ''Failed to apply permissions''
                             [category asset, name asset, asset_namespace asset, grp]
                      else ret ()) w')) = [grant_call env asset dataset_id grp]" for grp w'
    by (auto simp: run_simps grant_call_def split: sum.splits exn.splits)
  have m: "map (grant_call env asset dataset_id) (asset_groups asset)
             = concat (map (\<lambda>grp. [grant_call env asset dataset_id grp]) (asset_groups asset))"
    by (induction "asset_groups asset") auto
  show "prefix (calls (trace (apply_dataset_governance api env asset dataset_id w)))
          (map (grant_call env asset dataset_id) (asset_groups asset))"
    unfolding apply_dataset_governance_def Let_def m
    by (rule for_each_calls_prefix(1)) (rule b)
  show "calls (trace (apply_dataset_governance api env asset dataset_id w))
       = map (grant_call env asset dataset_id) (asset_groups asset)"
    if "outcome (apply_dataset_governance api env asset dataset_id w) = Inr ()"
    unfolding apply_dataset_governance_def Let_def m
    by (rule for_each_calls_prefix(2), rule b,
        rule that[unfolded apply_dataset_governance_def Let_def])
qed

lemma apply_dataset_governance_described:
  "described (trace (apply_dataset_governance api env asset dataset_id w)) = []"
  unfolding apply_dataset_governance_def Let_def
  by (rule for_each_described_none) (auto simp: run_simps split: sum.splits exn.splits)

lemma reset_summary:
  fixes api :: "'w service"
  defines "rep \<equiv> \<lambda>asset d (w::'w). fst (api w (describe_permissions_call asset d))"
  shows "described (trace (reset_dataset_permissions api asset d w)) = [rep asset d w]"
    and "\<exists>perms. agrees1 (rep asset d w) perms
           \<and> prefix (calls (trace (reset_dataset_permissions api asset d w)))
                (describe_permissions_call asset d
                 # map (revoke_call asset d) (filter (\<lambda>perm. sublist ''group'' (Principal perm)) perms))
           \<and> (outcome (reset_dataset_permissions api asset d w) = Inr () \<longrightarrow>
                rep asset d w = RPermissions perms
                \<and> calls (trace (reset_dataset_permissions api asset d w))
                    = describe_permissions_call asset d
                      # map (revoke_call asset d)
                          (filter (\<lambda>perm. sublist ''group'' (Principal perm)) perms))"
proof -
  show "described (trace (reset_dataset_permissions api asset d w)) = [rep asset d w]"
    by (auto simp: rep_def reset_dataset_permissions_def describe_permissions_call_def
        trace_bnd reset_loop_described outcome_invoke split: sum.splits reply.splits)
  show "\<exists>perms. agrees1 (rep asset d w) perms
           \<and> prefix (calls (trace (reset_dataset_permissions api asset d w)))
                (describe_permissions_call asset d
                 # map (revoke_call asset d) (filter (\<lambda>perm. sublist ''group'' (Principal perm)) perms))
           \<and> (outcome (reset_dataset_permissions api asset d w) = Inr () \<longrightarrow>
                rep asset d w = RPermissions perms
                \<and> calls (trace (reset_dataset_permissions api asset d w))
                    = describe_permissions_call asset d
                      # map (revoke_call asset d)
                          (filter (\<lambda>perm. sublist ''group'' (Principal perm)) perms))"
  proof (cases "rep asset d w")
    case (RPermissions p)
    then have r: "fst (api w (DescribeDataSetPermissions (asset_account_id asset) d)) = RPermissions p"
      by (simp add: rep_def describe_permissions_call_def)
    have pre: "prefix (calls (trace (reset_dataset_permissions api asset d w)))
                (describe_permissions_call asset d
                 # map (revoke_call asset d) (filter (\<lambda>perm. sublist ''group'' (Principal perm)) p))"
      using r reset_loop_prefix[of p api asset d "snd (api w (DescribeDataSetPermissions (asset_account_id asset) d))"]
      by (auto simp: reset_dataset_permissions_def describe_permissions_call_def
          trace_bnd outcome_invoke split: sum.splits)
    have eq: "outcome (reset_dataset_permissions api asset d w) = Inr () \<Longrightarrow>
         calls (trace (reset_dataset_permissions api asset d w))
                    = describe_permissions_call asset d
                      # map (revoke_call asset d) (filter (\<lambda>perm. sublist ''group'' (Principal perm)) p)"
      using reset_dataset_permissions_calls[where api = api and w = w and asset = asset
          and dataset_id = d and permissions = p, OF r]
      by (simp add: describe_permissions_call_def)
    from RPermissions pre eq show ?thesis by (auto simp: agrees1_def)
  next
    case ROk
    then show ?thesis
      by (intro exI[of _ "[]"])
         (simp add: agrees1_def rep_def reset_dataset_permissions_def describe_permissions_call_def
           trace_bnd outcome_bnd outcome_invoke)
  next
    case (RErr e)
    then show ?thesis
      by (intro exI[of _ "[]"])
         (simp add: agrees1_def rep_def reset_dataset_permissions_def describe_permissions_call_def
           trace_bnd outcome_bnd outcome_invoke)
  next
    case (RGroupList x)
    then show ?thesis
      by (intro exI[of _ "[]"])
         (simp add: agrees1_def rep_def reset_dataset_permissions_def describe_permissions_call_def
           trace_bnd outcome_bnd outcome_invoke)
  next
    case (RDataSets x y)
    then show ?thesis
      by (intro exI[of _ "[]"])
         (simp add: agrees1_def rep_def reset_dataset_permissions_def describe_permissions_call_def
           trace_bnd outcome_bnd outcome_invoke)
  next
    case (RUserManifest x)
    then show ?thesis
      by (intro exI[of _ "[]"])
         (simp add: agrees1_def rep_def reset_dataset_permissions_def describe_permissions_call_def
           trace_bnd outcome_bnd outcome_invoke)
  next
    case (RAssetManifest x)
    then show ?thesis
      by (intro exI[of _ "[]"])
         (simp add: agrees1_def rep_def reset_dataset_permissions_def describe_permissions_call_def
           trace_bnd outcome_bnd outcome_invoke)
  next
    case (ROktaUsers x)
    then show ?thesis
      by (intro exI[of _ "[]"])
         (simp add: agrees1_def rep_def reset_dataset_permissions_def describe_permissions_call_def
           trace_bnd outcome_bnd outcome_invoke)
  next
    case (ROktaGroups x)
    then show ?thesis
      by (intro exI[of _ "[]"])
         (simp add: agrees1_def rep_def reset_dataset_permissions_def describe_permissions_call_def
           trace_bnd outcome_bnd outcome_invoke)
  qed
qed

lemma agrees_Nil [simp]: "agrees [] permss" by (simp add: agrees_def)
lemma agrees_Cons [simp]: "agrees (r # rs) (p # ps) \<longleftrightarrow> agrees1 r p \<and> agrees rs ps"
  by (simp add: agrees_def)
lemma agrees_map [simp]: "agrees (map RPermissions permss) permss"
  by (induction permss) (simp_all add: agrees1_def)

lemma handle_asset_other:
  "category asset \<noteq> ''dataset'' \<Longrightarrow> handle_asset api env all_datasets asset = ret ()"
  by (simp add: handle_asset_def)

lemma handle_asset_summary:
  assumes "category asset = ''dataset''"
  shows "described (trace (handle_asset api env all_datasets asset w))
           = [fst (api w (describe_permissions_call asset (get_dataset_id asset all_datasets)))]"
    and "\<exists>perms.
           agrees1 (fst (api w (describe_permissions_call asset (get_dataset_id asset all_datasets)))) perms
           \<and> prefix (calls (trace (handle_asset api env all_datasets asset w)))
                (entry_calls env all_datasets asset perms)
           \<and> (outcome (handle_asset api env all_datasets asset w) = Inr () \<longrightarrow>
                fst (api w (describe_permissions_call asset (get_dataset_id asset all_datasets)))
                  = RPermissions perms
                \<and> calls (trace (handle_asset api env all_datasets asset w))
                    = entry_calls env all_datasets asset perms)"
proof -
  let ?d = "get_dataset_id asset all_datasets"
  let ?rs = "reset_dataset_permissions api asset ?d w"
  let ?ap = "apply_dataset_governance api env asset ?d (final ?rs)"
  let ?rep = "fst (api w (describe_permissions_call asset ?d))"
  have tr: "trace (handle_asset api env all_datasets asset w)
      = trace ?rs @ (case outcome ?rs of Inl e \<Rightarrow> [] | Inr u \<Rightarrow> trace ?ap)"
    using assms by (simp add: handle_asset_def Let_def trace_bnd)
  have oc: "outcome (handle_asset api env all_datasets asset w)
      = (case outcome ?rs of Inl e \<Rightarrow> Inl e | Inr u \<Rightarrow> outcome ?ap)"
    using assms by (simp add: handle_asset_def Let_def outcome_bnd)
  show "described (trace (handle_asset api env all_datasets asset w)) = [?rep]"
    by (simp add: tr reset_summary(1) apply_dataset_governance_described split: sum.splits)
  from reset_summary(2)[of api w asset ?d] obtain perms where
    a: "agrees1 ?rep perms"
    and p: "prefix (calls (trace ?rs))
                (describe_permissions_call asset ?d
                 # map (revoke_call asset ?d) (filter (\<lambda>perm. sublist ''group'' (Principal perm)) perms))"
    and e: "outcome ?rs = Inr () \<longrightarrow> ?rep = RPermissions perms
                \<and> calls (trace ?rs) = describe_permissions_call asset ?d
                      # map (revoke_call asset ?d)
                          (filter (\<lambda>perm. sublist ''group'' (Principal perm)) perms)"
    by blast
  have pre: "prefix (calls (trace (handle_asset api env all_datasets asset w)))
                (entry_calls env all_datasets asset perms)"
  proof (cases "outcome ?rs")
    case (Inl x)
    have "prefix (calls (trace ?rs))
            ((describe_permissions_call asset ?d
              # map (revoke_call asset ?d)
                  (filter (\<lambda>perm. sublist ''group'' (Principal perm)) perms))
             @ map (grant_call env asset ?d) (asset_groups asset))"
      using p by (rule prefix_prefix)
    then show ?thesis using Inl by (simp add: tr entry_calls_def)
  next
    case (Inr u)
    then have "calls (trace ?rs) = describe_permissions_call asset ?d
                      # map (revoke_call asset ?d)
                          (filter (\<lambda>perm. sublist ''group'' (Principal perm)) perms)"
      using e by simp
    then show ?thesis
      using Inr apply_dataset_governance_calls(1)[of api env asset ?d "final ?rs"]
      by (simp add: tr entry_calls_def)
  qed
  have full: "outcome (handle_asset api env all_datasets asset w) = Inr () \<longrightarrow>
                ?rep = RPermissions perms
                \<and> calls (trace (handle_asset api env all_datasets asset w))
                    = entry_calls env all_datasets asset perms"
  proof
    assume o: "outcome (handle_asset api env all_datasets asset w) = Inr ()"
    then have o1: "outcome ?rs = Inr ()" and o2: "outcome ?ap = Inr ()"
      by (auto simp: oc split: sum.splits)
    from o2 have "calls (trace ?ap) = map (grant_call env asset ?d) (asset_groups asset)"
      by (rule apply_dataset_governance_calls(2))
    with o1 e show "?rep = RPermissions perms
                \<and> calls (trace (handle_asset api env all_datasets asset w))
                    = entry_calls env all_datasets asset perms"
      by (simp add: tr entry_calls_def)
  qed
  from a pre full show "\<exists>perms.
           agrees1 ?rep perms
           \<and> prefix (calls (trace (handle_asset api env all_datasets asset w)))
                (entry_calls env all_datasets asset perms)
           \<and> (outcome (handle_asset api env all_datasets asset w) = Inr () \<longrightarrow>
                ?rep = RPermissions perms
                \<and> calls (trace (handle_asset api env all_datasets asset w))
                    = entry_calls env all_datasets asset perms)"
    by blast
qed

lemma assets_loop_summary:
  "\<exists>permss.
     length permss = length (filter (\<lambda>asset. category asset = ''dataset'') assets)
     \<and> agrees (described (trace (for_each assets (handle_asset api env all_datasets) w))) permss
     \<and> prefix (calls (trace (for_each assets (handle_asset api env all_datasets) w)))
         (concat (map2 (entry_calls env all_datasets)
            (filter (\<lambda>asset. category asset = ''dataset'') assets) permss))
     \<and> (outcome (for_each assets (handle_asset api env all_datasets) w) = Inr () \<longrightarrow>
          described (trace (for_each assets (handle_asset api env all_datasets) w))
            = map RPermissions permss
          \<and> calls (trace (for_each assets (handle_asset api env all_datasets) w))
            = concat (map2 (entry_calls env all_datasets)
                (filter (\<lambda>asset. category asset = ''dataset'') assets) permss))"
proof (induction assets arbitrary: w)
  case Nil
  show ?case by simp
next
  case (Cons a rest)
  let ?h = "handle_asset api env all_datasets"
  let ?ds = "\<lambda>asset. category asset = ''dataset''"
  show ?case
  proof (cases "category a = ''dataset''")
    case False
    then have "for_each (a # rest) ?h w = for_each rest ?h w"
      by (simp add: handle_asset_other bnd_ret)
    with False Cons.IH[of w] show ?thesis by simp
  next
    case True
    let ?r = "?h a w"
    let ?rep = "fst (api w (describe_permissions_call a (get_dataset_id a all_datasets)))"
    from handle_asset_summary(2)[OF True, where api = api and w = w and env = env
        and all_datasets = all_datasets] obtain perms where
      a1: "agrees1 ?rep perms"
      and p1: "prefix (calls (trace ?r)) (entry_calls env all_datasets a perms)"
      and e1: "outcome ?r = Inr () \<longrightarrow> ?rep = RPermissions perms
                  \<and> calls (trace ?r) = entry_calls env all_datasets a perms"
      by blast
    have d1: "described (trace ?r) = [?rep]"
      by (rule handle_asset_summary(1)[OF True])
    show ?thesis
    proof (cases "outcome ?r")
      case (Inl e)
      let ?permss = "perms # replicate (length (filter ?ds rest)) []"
      have t: "trace (for_each (a # rest) ?h w) = trace ?r"
        and o: "outcome (for_each (a # rest) ?h w) = Inl e"
        using Inl by (simp_all add: trace_bnd outcome_bnd)
      have "prefix (calls (trace ?r))
              (entry_calls env all_datasets a perms
               @ concat (map2 (entry_calls env all_datasets) (filter ?ds rest)
                           (replicate (length (filter ?ds rest)) [])))"
        using p1 by (rule prefix_prefix)
      then have "prefix (calls (trace ?r))
              (concat (map2 (entry_calls env all_datasets) (filter ?ds (a # rest)) ?permss))"
        using True by simp
      then show ?thesis
        apply (intro exI[of _ ?permss])
        unfolding t o
        using True a1 d1
        by simp
    next
      case (Inr u)
      from Cons.IH[of "final ?r"] obtain permss where
        l: "length permss = length (filter ?ds rest)"
        and a2: "agrees (described (trace (for_each rest ?h (final ?r)))) permss"
        and p2: "prefix (calls (trace (for_each rest ?h (final ?r))))
                   (concat (map2 (entry_calls env all_datasets) (filter ?ds rest) permss))"
        and e2: "outcome (for_each rest ?h (final ?r)) = Inr () \<longrightarrow>
                   described (trace (for_each rest ?h (final ?r))) = map RPermissions permss
                   \<and> calls (trace (for_each rest ?h (final ?r)))
                       = concat (map2 (entry_calls env all_datasets) (filter ?ds rest) permss)"
        by blast
      have t: "trace (for_each (a # rest) ?h w) = trace ?r @ trace (for_each rest ?h (final ?r))"
        and o: "outcome (for_each (a # rest) ?h w) = outcome (for_each rest ?h (final ?r))"
        using Inr by (simp_all add: trace_bnd outcome_bnd)
      have c1: "calls (trace ?r) = entry_calls env all_datasets a perms"
        and r1: "?rep = RPermissions perms"
        using e1 Inr by simp_all
      show ?thesis
        apply (intro exI[of _ "perms # permss"])
        unfolding t o
        using True l a1 a2 p2 e2 d1
        by (simp add: c1 r1)
    qed
  qed
qed

lemma asset_run_after_listing:
  assumes "fst (api w1 (get_asset_manifest_call env)) = RAssetManifest entries"
  shows "trace (bnd (get_asset_manifest api env acct) (govern_assets api env all_datasets) w1)
     = Api (get_asset_manifest_call env) (RAssetManifest entries)
       # trace (for_each (map (\<lambda>a. \<lparr> name = m_name a, category = m_category a,
                                   asset_namespace = m_namespace a,
                                   asset_groups = m_asset_groups a,
                                   permission = m_permission a,
                                   asset_account_id = acct \<rparr>) entries)
                  (handle_asset api env all_datasets)
                  (snd (api w1 (get_asset_manifest_call env))))
       @ (case outcome (for_each (map (\<lambda>a. \<lparr> name = m_name a, category = m_category a,
                                   asset_namespace = m_namespace a,
                                   asset_groups = m_asset_groups a,
                                   permission = m_permission a,
                                   asset_account_id = acct \<rparr>) entries)
                  (handle_asset api env all_datasets)
                  (snd (api w1 (get_asset_manifest_call env)))) of
            Inl e \<Rightarrow> [Log ''traceback'' []]
          | Inr u \<Rightarrow> [])"
    and "outcome (bnd (get_asset_manifest api env acct) (govern_assets api env all_datasets) w1)
     = (case outcome (for_each (map (\<lambda>a. \<lparr> name = m_name a, category = m_category a,
                                   asset_namespace = m_namespace a,
                                   asset_groups = m_asset_groups a,
                                   permission = m_permission a,
                                   asset_account_id = acct \<rparr>) entries)
                  (handle_asset api env all_datasets)
                  (snd (api w1 (get_asset_manifest_call env)))) of
            Inl e \<Rightarrow> Inl (Failed ASSET_FAILURE_RESPONSE)
          | Inr u \<Rightarrow> Inr ASSET_SUCCESS_RESPONSE)"
  using assms
  by (simp_all add: get_asset_manifest_def govern_assets_def get_asset_manifest_call_def
      run_simps split: sum.splits)

text \<open>
  Claim C3, as amended.  Once the dataset listing has returned and the manifest has been
  read, the remote calls of the asset job after the listing are the manifest retrieval
  followed, for the entries of category "dataset" in manifest order, by the calls of
  \<open>entry_calls\<close>: the describe call, a revoke for every permission the describe call
  returned whose principal contains "group", then the grants of the entry.  A run that
  ends early issues a prefix of this list; a run that returns the success response issues
  the whole list, where the permission lists are exactly the replies to the describe
  calls.  So within the processing of each entry every revoke comes before every grant,
  and the reset is carried out for every entry processed, whatever its groups and
  whatever the existing permissions.  The order is per entry, not per dataset
  (see the run with two entries for one dataset below).
\<close>

theorem C3_reset_then_grant_per_entry:
  assumes listing: "get_all_datasets api acct w = Some (Inr all_datasets, w1, t1)"
    and manifest: "fst (api w1 (get_asset_manifest_call env)) = RAssetManifest entries"
  shows "\<exists>rest permss.
      map_option trace (asset_gov_handler api env acct w) = Some (Log ''event'' [] # t1 @ rest)
    \<and> length permss = length (dataset_assets acct entries)
    \<and> agrees (described rest) permss
    \<and> prefix (calls rest)
        (get_asset_manifest_call env
         # concat (map2 (entry_calls env all_datasets) (dataset_assets acct entries) permss))
    \<and> (map_option outcome (asset_gov_handler api env acct w) = Some (Inr ASSET_SUCCESS_RESPONSE)
         \<longrightarrow> described rest = map RPermissions permss
           \<and> calls rest
               = get_asset_manifest_call env
                 # concat (map2 (entry_calls env all_datasets) (dataset_assets acct entries) permss))"
proof -
  let ?assets = "map (\<lambda>a. \<lparr> name = m_name a, category = m_category a,
                                   asset_namespace = m_namespace a,
                                   asset_groups = m_asset_groups a,
                                   permission = m_permission a,
                                   asset_account_id = acct \<rparr>) entries"
  let ?w2 = "snd (api w1 (get_asset_manifest_call env))"
  let ?loop = "for_each ?assets (handle_asset api env all_datasets) ?w2"
  let ?rest = "trace (bnd (get_asset_manifest api env acct) (govern_assets api env all_datasets) w1)"
  note run = asset_run_after_listing[where api = api and ?w1.0 = w1 and env = env
      and entries = entries and acct = acct and all_datasets = all_datasets, OF manifest]
  from assets_loop_summary[of ?assets api env all_datasets ?w2] obtain permss where
    l: "length permss = length (filter (\<lambda>asset. category asset = ''dataset'') ?assets)"
    and a: "agrees (described (trace ?loop)) permss"
    and p: "prefix (calls (trace ?loop))
         (concat (map2 (entry_calls env all_datasets)
            (filter (\<lambda>asset. category asset = ''dataset'') ?assets) permss))"
    and e: "outcome ?loop = Inr () \<longrightarrow>
          described (trace ?loop) = map RPermissions permss
          \<and> calls (trace ?loop)
            = concat (map2 (entry_calls env all_datasets)
                (filter (\<lambda>asset. category asset = ''dataset'') ?assets) permss)"
    by blast
  have c: "calls ?rest = get_asset_manifest_call env # calls (trace ?loop)"
    and d: "described ?rest = described (trace ?loop)"
    by (simp_all add: run get_asset_manifest_call_def split: sum.splits)
  have s: "outcome (bnd (get_asset_manifest api env acct) (govern_assets api env all_datasets) w1)
             = Inr ASSET_SUCCESS_RESPONSE \<Longrightarrow> outcome ?loop = Inr ()"
    by (cases "outcome ?loop") (simp_all add: run)
  have "map_option trace (asset_gov_handler api env acct w) = Some (Log ''event'' [] # t1 @ ?rest)
    \<and> length permss = length (dataset_assets acct entries)
    \<and> agrees (described ?rest) permss
    \<and> prefix (calls ?rest)
        (get_asset_manifest_call env
         # concat (map2 (entry_calls env all_datasets) (dataset_assets acct entries) permss))
    \<and> (map_option outcome (asset_gov_handler api env acct w) = Some (Inr ASSET_SUCCESS_RESPONSE)
         \<longrightarrow> described ?rest = map RPermissions permss
           \<and> calls ?rest
               = get_asset_manifest_call env
                 # concat (map2 (entry_calls env all_datasets) (dataset_assets acct entries) permss))"
    unfolding c d asset_gov_handler_Some[OF listing] dataset_assets_def
    using l a p e s by simp
  then show ?thesis by blast
qed

theorem C3_reset_then_grant_per_entry_witness:
  "get_all_datasets scripted ''111122223333'' sales_script
     = Some (Inr [\<lparr>Name = ''sales'', DataSetId = ''ds-1''\<rparr>], tl sales_script,
         [Api (ListDataSets ''111122223333'' None)
              (RDataSets [\<lparr>Name = ''sales'', DataSetId = ''ds-1''\<rparr>] None)])
   \<and> fst (scripted (tl sales_script)
            (get_asset_manifest_call (stack_asset_env ''bucket'' ''us-east-1'')))
       = RAssetManifest [sales_entry]
   \<and> map_option outcome (asset_gov_handler scripted (stack_asset_env ''bucket'' ''us-east-1'')
         ''111122223333'' sales_script) = Some (Inr ASSET_SUCCESS_RESPONSE)
   \<and> (\<exists>rest permss.
        map_option trace (asset_gov_handler scripted (stack_asset_env ''bucket'' ''us-east-1'')
            ''111122223333'' sales_script)
          = Some (Log ''event'' []
                  # [Api (ListDataSets ''111122223333'' None)
                       (RDataSets [\<lparr>Name = ''sales'', DataSetId = ''ds-1''\<rparr>] None)] @ rest)
        \<and> length permss = length (dataset_assets ''111122223333'' [sales_entry])
        \<and> described rest = map RPermissions permss
        \<and> calls rest
            = get_asset_manifest_call (stack_asset_env ''bucket'' ''us-east-1'')
              # concat (map2 (entry_calls (stack_asset_env ''bucket'' ''us-east-1'')
                               [\<lparr>Name = ''sales'', DataSetId = ''ds-1''\<rparr>])
                          (dataset_assets ''111122223333'' [sales_entry]) permss))"
proof -
  have l: "get_all_datasets scripted ''111122223333'' sales_script
     = Some (Inr [\<lparr>Name = ''sales'', DataSetId = ''ds-1''\<rparr>], tl sales_script,
         [Api (ListDataSets ''111122223333'' None)
              (RDataSets [\<lparr>Name = ''sales'', DataSetId = ''ds-1''\<rparr>] None)])"
    by (simp add: get_all_datasets_def list_data_sets_while.simps invoke_def
        scripted_def sales_script_def)
  have m: "fst (scripted (tl sales_script)
            (get_asset_manifest_call (stack_asset_env ''bucket'' ''us-east-1'')))
       = RAssetManifest [sales_entry]"
    by (simp add: scripted_def sales_script_def)
  have ok: "map_option outcome (asset_gov_handler scripted (stack_asset_env ''bucket'' ''us-east-1'')
         ''111122223333'' sales_script) = Some (Inr ASSET_SUCCESS_RESPONSE)"
    unfolding asset_gov_handler_def l
    by (simp add: get_asset_manifest_def govern_assets_def
        handle_asset_def reset_dataset_permissions_def apply_dataset_governance_def
        group_principal_def stack_asset_env_def sales_script_def sales_entry_def
        sales_permissions_def sublist_code(3) Let_def outcome_def
        bnd_def except_ClientError_def except_Exception_def invoke_def
        ret_def raise_def logger_def scripted_def)
  note th = C3_reset_then_grant_per_entry[where api = scripted and acct = "''111122223333''" and w = sales_script
      and env = "stack_asset_env ''bucket'' ''us-east-1''"
      and all_datasets = "[\<lparr>Name = ''sales'', DataSetId = ''ds-1''\<rparr>]"
      and ?w1.0 = "tl sales_script" and entries = "[sales_entry]", OF l m]
  from th ok have "\<exists>rest permss.
        map_option trace (asset_gov_handler scripted (stack_asset_env ''bucket'' ''us-east-1'')
            ''111122223333'' sales_script)
          = Some (Log ''event'' []
                  # [Api (ListDataSets ''111122223333'' None)
                       (RDataSets [\<lparr>Name = ''sales'', DataSetId = ''ds-1''\<rparr>] None)] @ rest)
        \<and> length permss = length (dataset_assets ''111122223333'' [sales_entry])
        \<and> described rest = map RPermissions permss
        \<and> calls rest
            = get_asset_manifest_call (stack_asset_env ''bucket'' ''us-east-1'')
              # concat (map2 (entry_calls (stack_asset_env ''bucket'' ''us-east-1'')
                               [\<lparr>Name = ''sales'', DataSetId = ''ds-1''\<rparr>])
                          (dataset_assets ''111122223333'' [sales_entry]) permss)"
    by blast
  with l m ok show ?thesis by blast
qed

lemma shared_run:
  "asset_gov_handler scripted (stack_asset_env ''bucket'' ''us-east-1'') ''111122223333''
     shared_script
   = Some (Inr ASSET_SUCCESS_RESPONSE, [],
       [Log ''event'' [],
        Api (ListDataSets ''111122223333'' None)
            (RDataSets [\<lparr>Name = ''sales'', DataSetId = ''ds-1''\<rparr>] None),
        Api (GetObject ''bucket'' ''qs-asset-governance.json'') (RAssetManifest shared_entries),
        Api (DescribeDataSetPermissions ''111122223333'' ''ds-1'')
            (RPermissions
               [\<lparr> Principal = ''arn:aws:quicksight:us-east-1:111122223333:group/default/old'',
                  Actions = READ_ACTIONS \<rparr>]),
        Api (RevokePermissions ''111122223333'' ''ds-1''
               ''arn:aws:quicksight:us-east-1:111122223333:group/default/old'' READ_ACTIONS) ROk,
        Log ''Permissions reset'' [''dataset'', ''sales''],
        Api (GrantPermissions ''111122223333'' ''ds-1''
               ''arn:aws:quicksight:us-east-1:111122223333:group/ns1/g1''
               (ActionList READ_ACTIONS)) ROk,
        Log ''permissions given to group'' [''sales'', ''g1'', ''ns1''],
        Api (DescribeDataSetPermissions ''111122223333'' ''ds-1'')
            (RPermissions
               [\<lparr> Principal = ''arn:aws:quicksight:us-east-1:111122223333:group/ns1/g1'',
                  Actions = READ_ACTIONS \<rparr>]),
        Api (RevokePermissions ''111122223333'' ''ds-1''
               ''arn:aws:quicksight:us-east-1:111122223333:group/ns1/g1'' READ_ACTIONS) ROk,
        Log ''Permissions reset'' [''dataset'', ''sales''],
        Api (GrantPermissions ''111122223333'' ''ds-1''
               ''arn:aws:quicksight:us-east-1:111122223333:group/ns2/g2''
               (ActionList READ_ACTIONS)) ROk,
        Log ''permissions given to group'' [''sales'', ''g2'', ''ns2'']])"
proof -
  have l: "get_all_datasets scripted ''111122223333'' shared_script
     = Some (Inr [\<lparr>Name = ''sales'', DataSetId = ''ds-1''\<rparr>], tl shared_script,
         [Api (ListDataSets ''111122223333'' None)
              (RDataSets [\<lparr>Name = ''sales'', DataSetId = ''ds-1''\<rparr>] None)])"
    by (simp add: get_all_datasets_def list_data_sets_while.simps invoke_def
        scripted_def shared_script_def)
  show ?thesis
    unfolding asset_gov_handler_def l
    by (simp add: get_asset_manifest_def govern_assets_def
        handle_asset_def reset_dataset_permissions_def apply_dataset_governance_def
        group_principal_def stack_asset_env_def shared_script_def shared_entries_def
        sublist_code(3) Let_def
        bnd_def except_ClientError_def except_Exception_def invoke_def
        ret_def raise_def logger_def scripted_def)
qed

text \<open>
  Claim C3 as stated fails for a dataset that two manifest entries name: the reset of the
  second entry comes after the grants of the first, so a revoke on the dataset is issued
  after a grant on the same dataset (and takes back what the first entry granted).
\<close>

theorem C3_later_entry_revokes_earlier_grant_counterexample:
  "map_option (\<lambda>res. calls (trace res))
     (asset_gov_handler scripted (stack_asset_env ''bucket'' ''us-east-1'') ''111122223333''
        shared_script)
   = Some [ListDataSets ''111122223333'' None,
           GetObject ''bucket'' ''qs-asset-governance.json'',
           DescribeDataSetPermissions ''111122223333'' ''ds-1'',
           RevokePermissions ''111122223333'' ''ds-1''
             ''arn:aws:quicksight:us-east-1:111122223333:group/default/old'' READ_ACTIONS,
           GrantPermissions ''111122223333'' ''ds-1''
             ''arn:aws:quicksight:us-east-1:111122223333:group/ns1/g1'' (ActionList READ_ACTIONS),
           DescribeDataSetPermissions ''111122223333'' ''ds-1'',
           RevokePermissions ''111122223333'' ''ds-1''
             ''arn:aws:quicksight:us-east-1:111122223333:group/ns1/g1'' READ_ACTIONS,
           GrantPermissions ''111122223333'' ''ds-1''
             ''arn:aws:quicksight:us-east-1:111122223333:group/ns2/g2'' (ActionList READ_ACTIONS)]
   \<and> map_option (\<lambda>res. grant_then_revoke ''ds-1'' (calls (trace res)))
       (asset_gov_handler scripted (stack_asset_env ''bucket'' ''us-east-1'') ''111122223333''
          shared_script)
     = Some True"
  by (simp add: shared_run trace_def)

lemma get_dataset_id_no_match:
  "\<forall>dset \<in> set all_datasets. Name dset \<noteq> name asset \<Longrightarrow> get_dataset_id asset all_datasets = ''''"
  by (induction all_datasets) auto

lemma handle_asset_describe_raises:
  assumes "category asset = ''dataset''"
    and "fst (api w (describe_permissions_call asset (get_dataset_id asset all_datasets))) = RErr e"
  shows "outcome (handle_asset api env all_datasets asset w) = Inl e"
    and "calls (trace (handle_asset api env all_datasets asset w))
           = [describe_permissions_call asset (get_dataset_id asset all_datasets)]"
  using assms
  by (simp_all add: handle_asset_def reset_dataset_permissions_def describe_permissions_call_def
      Let_def run_simps)

text \<open>
  Claim C5.  For a dataset asset whose name matches no dataset of the listing,
  \<open>get_dataset_id\<close> yields the empty identifier (\<open>get_dataset_id_no_match\<close>).  The first
  permission call that follows is the \<open>describe_data_set_permissions\<close> of the reset, and it
  stands outside every try block: when it fails, also with InvalidParameterValueException,
  the exception leaves \<open>handle_asset\<close> (\<open>handle_asset_describe_raises\<close>) and the handler
  gives up the run.  The run below has a manifest of two assets, the first unknown to the
  listing, and a service that rejects the empty identifier as an invalid parameter: the
  handler raises its failure response after the describe call, the error is not swallowed,
  and the second asset is never reached.
\<close>

theorem C5_unmatched_dataset_fails_the_run:
  "get_dataset_id \<lparr> name = ''missing'', category = ''dataset'', asset_namespace = ''default'',
       asset_groups = [''qs_group_ops''], permission = ''READ'',
       asset_account_id = ''111122223333'' \<rparr> [\<lparr>Name = ''sales'', DataSetId = ''ds-1''\<rparr>] = ''''
   \<and> asset_gov_handler unknown_dataset_service (stack_asset_env ''bucket'' ''us-east-1'')
       ''111122223333'' ()
     = Some (Inl (Failed ASSET_FAILURE_RESPONSE), (),
         [Log ''event'' [],
          Api (ListDataSets ''111122223333'' None)
              (RDataSets [\<lparr>Name = ''sales'', DataSetId = ''ds-1''\<rparr>] None),
          Api (GetObject ''bucket'' ''qs-asset-governance.json'')
              (RAssetManifest [missing_entry, sales_entry]),
          Api (DescribeDataSetPermissions ''111122223333'' '''')
              (RErr (ClientError ''InvalidParameterValueException'')),
          Log ''traceback'' []])"
proof -
  have l: "get_all_datasets unknown_dataset_service ''111122223333'' ()
     = Some (Inr [\<lparr>Name = ''sales'', DataSetId = ''ds-1''\<rparr>], (),
         [Api (ListDataSets ''111122223333'' None)
              (RDataSets [\<lparr>Name = ''sales'', DataSetId = ''ds-1''\<rparr>] None)])"
    by (simp add: get_all_datasets_def list_data_sets_while.simps invoke_def
        unknown_dataset_service_def)
  show ?thesis
    by (simp add: asset_gov_handler_def l get_asset_manifest_def govern_assets_def
        handle_asset_def reset_dataset_permissions_def stack_asset_env_def
        missing_entry_def sales_entry_def Let_def
        bnd_def except_ClientError_def except_Exception_def invoke_def
        ret_def raise_def logger_def unknown_dataset_service_def)
qed

lemma apply_user_governance_trace:
  "trace (apply_user_governance api env user w) =
     trace (create_if_not_exists_namespace api user w) @
     (case outcome (create_if_not_exists_namespace api user w) of
        Inl e \<Rightarrow> []
      | Inr u1 \<Rightarrow>
          trace (register_if_not_exists_user api env user
                   (final (create_if_not_exists_namespace api user w))) @
          (case outcome (register_if_not_exists_user api env user
                   (final (create_if_not_exists_namespace api user w))) of
             Inl e \<Rightarrow> []
           | Inr u2 \<Rightarrow>
               trace (update_role api user (final (register_if_not_exists_user api env user
                   (final (create_if_not_exists_namespace api user w))))) @
               (if outcome (update_role api user (final (register_if_not_exists_user api env user
                      (final (create_if_not_exists_namespace api user w))))) = Inr True
                   \<and> qs_groups user \<noteq> []
                then trace (bnd (create_if_not_exists_groups api user)
                              (\<lambda>_. update_memberships api user)
                              (final (update_role api user
                                 (final (register_if_not_exists_user api env user
                                    (final (create_if_not_exists_namespace api user w)))))))
                else [])))"
  by (simp add: apply_user_governance_def trace_bnd split: sum.splits)

lemma calls_group_sync:
  "set (calls (trace (bnd (create_if_not_exists_groups api user)
                        (\<lambda>_. update_memberships api user) w))) \<subseteq> {c. is_group_call c}"
  using calls_groups[of api user w] calls_memberships[of api user]
  by (auto simp: trace_bnd split: sum.splits)

lemma calls_register_no_role:
  "qs_role user = '''' \<Longrightarrow>
   calls (trace (register_if_not_exists_user api env user w))
     = [DescribeUser (qs_username user) (account_id user) (namespace user)]"
  by (auto simp: register_if_not_exists_user_def run_simps split: sum.splits exn.splits)

lemma no_role_group_no_role:
  assumes "QS_ADMIN_OKTA_GROUP env \<notin> set gs" "QS_AUTHOR_OKTA_GROUP env \<notin> set gs"
    "QS_READER_OKTA_GROUP env \<notin> set gs"
  shows "qs_role (new_OktaUser env un em gs acct ns) = ''''"
  using assms by (simp add: new_OktaUser_def post_init_qs_role_def post_init_qs_groups_def)

text \<open>
  Claim C6.  For a user whose group list holds none of the three role-group names, the
  resolved role is the empty string and the run for the user issues no \<open>register_user\<close>
  call.  The role update of such a user carries the empty role, which the service does not
  accept (the premise of the downgrade path of \<open>update_role\<close>): when every \<open>update_user\<close>
  call of the run raises, or when the user has no prefix-filtered group at all, the run
  issues no group call (no describe, create, list, membership creation or membership
  deletion).
\<close>

theorem C6_no_role_no_registration_no_group_sync:
  assumes "QS_ADMIN_OKTA_GROUP env \<notin> set gs" "QS_AUTHOR_OKTA_GROUP env \<notin> set gs"
    "QS_READER_OKTA_GROUP env \<notin> set gs"
  shows "qs_role (new_OktaUser env un em gs acct ns) = ''''
     \<and> filter is_register_user
          (calls (trace (apply_user_governance api env (new_OktaUser env un em gs acct ns) w))) = []
     \<and> ((\<forall>r. Api (update_user_call (new_OktaUser env un em gs acct ns)) r
               \<in> set (trace (apply_user_governance api env (new_OktaUser env un em gs acct ns) w))
             \<longrightarrow> (\<exists>e. r = RErr e))
          \<or> qs_groups (new_OktaUser env un em gs acct ns) = []
          \<longrightarrow> filter is_group_call
                (calls (trace (apply_user_governance api env (new_OktaUser env un em gs acct ns) w)))
              = [])"
proof -
  let ?u = "new_OktaUser env un em gs acct ns"
  let ?r1 = "create_if_not_exists_namespace api ?u w"
  let ?r2 = "register_if_not_exists_user api env ?u (final ?r1)"
  let ?r3 = "update_role api ?u (final ?r2)"
  let ?r4 = "bnd (create_if_not_exists_groups api ?u) (\<lambda>_. update_memberships api ?u) (final ?r3)"
  have role: "qs_role ?u = ''''" using assms by (rule no_role_group_no_role)
  have reg1: "filter is_register_user (calls (trace ?r1)) = []"
    by (rule filter_calls_empty[OF calls_namespace]) auto
  have reg2: "filter is_register_user (calls (trace ?r2)) = []"
    by (simp add: calls_register_no_role[OF role])
  have reg3: "filter is_register_user (calls (trace ?r3)) = []"
    using update_role_calls[of api ?u "final ?r2"]
    by (auto simp: update_user_call_def delete_user_call_def)
  have reg4: "filter is_register_user (calls (trace ?r4)) = []"
  proof (rule filter_calls_empty[OF calls_group_sync])
    fix c assume "c \<in> {c. is_group_call c}"
    then show "\<not> is_register_user c" by (cases c) auto
  qed
  have grp1: "filter is_group_call (calls (trace ?r1)) = []"
    by (rule filter_calls_empty[OF calls_namespace]) auto
  have grp2: "filter is_group_call (calls (trace ?r2)) = []"
    by (simp add: calls_register_no_role[OF role])
  have grp3: "filter is_group_call (calls (trace ?r3)) = []"
    using update_role_calls[of api ?u "final ?r2"]
    by (auto simp: update_user_call_def delete_user_call_def)
  have no_register: "filter is_register_user (calls (trace (apply_user_governance api env ?u w))) = []"
    using reg1 reg2 reg3 reg4
    by (simp add: apply_user_governance_trace split: sum.splits)
  have no_sync: "filter is_group_call (calls (trace (apply_user_governance api env ?u w))) = []"
    if gate: "outcome ?r3 \<noteq> Inr True \<or> qs_groups ?u = []"
    using gate grp1 grp2 grp3
    by (auto simp: apply_user_governance_trace split: sum.splits)
  have no_group: "filter is_group_call (calls (trace (apply_user_governance api env ?u w))) = []"
    if rej: "(\<forall>r. Api (update_user_call ?u) r \<in> set (trace (apply_user_governance api env ?u w))
               \<longrightarrow> (\<exists>e. r = RErr e)) \<or> qs_groups ?u = []"
  proof (cases "qs_groups ?u = []")
    case True
    then show ?thesis by (simp add: no_sync)
  next
    case False
    with rej have rej': "\<forall>r. Api (update_user_call ?u) r
        \<in> set (trace (apply_user_governance api env ?u w)) \<longrightarrow> (\<exists>e. r = RErr e)" by blast
    show ?thesis
    proof (cases "outcome ?r3 = Inr True")
      case False
      then show ?thesis by (simp add: no_sync)
    next
      case t: True
      from update_role_True[OF t] obtain r where
        r: "Api (update_user_call ?u) r \<in> set (trace ?r3)" "\<forall>e. r \<noteq> RErr e" by auto
      show ?thesis
      proof (cases "outcome ?r1")
        case (Inl e)
        then show ?thesis using grp1 by (simp add: apply_user_governance_trace)
      next
        case o1: (Inr u1)
        show ?thesis
        proof (cases "outcome ?r2")
          case (Inl e)
          then show ?thesis using o1 grp1 grp2 by (simp add: apply_user_governance_trace)
        next
          case o2: (Inr u2)
          from r(1) o1 o2 have "Api (update_user_call ?u) r
              \<in> set (trace (apply_user_governance api env ?u w))"
            by (simp add: apply_user_governance_trace)
          with rej' r(2) show ?thesis by blast
        qed
      qed
    qed
  qed
  from role no_register no_group show ?thesis by blast
qed

theorem C6_no_role_no_registration_no_group_sync_witness:
  "QS_ADMIN_OKTA_GROUP (stack_user_env ''bucket'') \<notin> set [''Everyone'', ''qs_group_hr'']
   \<and> QS_AUTHOR_OKTA_GROUP (stack_user_env ''bucket'') \<notin> set [''Everyone'', ''qs_group_hr'']
   \<and> QS_READER_OKTA_GROUP (stack_user_env ''bucket'') \<notin> set [''Everyone'', ''qs_group_hr'']
   \<and> trace (apply_user_governance scripted (stack_user_env ''bucket'') unassigned_user
         [ROk, ROk, RErr (ClientError ''InvalidParameterValueException''), ROk])
       = [Api (DescribeNamespace ''111122223333'' ''default'') ROk,
          Api (describe_user_call unassigned_user) ROk,
          Api (update_user_call unassigned_user)
              (RErr (ClientError ''InvalidParameterValueException'')),
          Api (delete_user_call unassigned_user) ROk,
          Log ''deleted'' [''QSGovernance-FederatedQuickSightRole/b@x.com'']]
   \<and> qs_role unassigned_user = ''''
   \<and> filter is_register_user (calls (trace (apply_user_governance scripted
         (stack_user_env ''bucket'') unassigned_user
         [ROk, ROk, RErr (ClientError ''InvalidParameterValueException''), ROk]))) = []
   \<and> filter is_group_call (calls (trace (apply_user_governance scripted
         (stack_user_env ''bucket'') unassigned_user
         [ROk, ROk, RErr (ClientError ''InvalidParameterValueException''), ROk]))) = []
   \<and> QS_ADMIN_OKTA_GROUP (stack_user_env ''bucket'') \<notin> set [''Everyone'']
   \<and> QS_AUTHOR_OKTA_GROUP (stack_user_env ''bucket'') \<notin> set [''Everyone'']
   \<and> QS_READER_OKTA_GROUP (stack_user_env ''bucket'') \<notin> set [''Everyone'']
   \<and> qs_groups downgraded_user = []
   \<and> filter is_group_call (calls (trace (apply_user_governance scripted
         (stack_user_env ''bucket'') downgraded_user [ROk, ROk, ROk]))) = []"
proof -
  have g: "QS_ADMIN_OKTA_GROUP (stack_user_env ''bucket'') \<notin> set [''Everyone'', ''qs_group_hr'']"
    "QS_AUTHOR_OKTA_GROUP (stack_user_env ''bucket'') \<notin> set [''Everyone'', ''qs_group_hr'']"
    "QS_READER_OKTA_GROUP (stack_user_env ''bucket'') \<notin> set [''Everyone'', ''qs_group_hr'']"
    by (simp_all add: stack_user_env_def)
  have t: "trace (apply_user_governance scripted (stack_user_env ''bucket'') unassigned_user
         [ROk, ROk, RErr (ClientError ''InvalidParameterValueException''), ROk])
       = [Api (DescribeNamespace ''111122223333'' ''default'') ROk,
          Api (describe_user_call unassigned_user) ROk,
          Api (update_user_call unassigned_user)
              (RErr (ClientError ''InvalidParameterValueException'')),
          Api (delete_user_call unassigned_user) ROk,
          Log ''deleted'' [''QSGovernance-FederatedQuickSightRole/b@x.com'']]"
    by (simp add: unassigned_user_def new_OktaUser_def post_init_qs_groups_def
        post_init_qs_role_def stack_user_env_def apply_user_governance_def
        create_if_not_exists_namespace_def register_if_not_exists_user_def update_role_def
        delete_user_def describe_user_call_def update_user_call_def delete_user_call_def
        exec_simps)
  have rej: "\<forall>r. Api (update_user_call unassigned_user) r
               \<in> set (trace (apply_user_governance scripted (stack_user_env ''bucket'')
                     unassigned_user
                     [ROk, ROk, RErr (ClientError ''InvalidParameterValueException''), ROk]))
             \<longrightarrow> (\<exists>e. r = RErr e)"
    unfolding t
    by (simp add: update_user_call_def describe_user_call_def delete_user_call_def)
  note c = C6_no_role_no_registration_no_group_sync[where env = "stack_user_env ''bucket''" and gs = "[''Everyone'', ''qs_group_hr'']"
      and un = "''b@x.com''" and em = "''b@x.com''" and acct = "''111122223333''"
      and ns = "''default''" and api = scripted
      and w = "[ROk, ROk, RErr (ClientError ''InvalidParameterValueException''), ROk]",
      OF g, folded unassigned_user_def]
  from c rej have u:
    "qs_role unassigned_user = ''''"
    "filter is_register_user (calls (trace (apply_user_governance scripted
         (stack_user_env ''bucket'') unassigned_user
         [ROk, ROk, RErr (ClientError ''InvalidParameterValueException''), ROk]))) = []"
    "filter is_group_call (calls (trace (apply_user_governance scripted
         (stack_user_env ''bucket'') unassigned_user
         [ROk, ROk, RErr (ClientError ''InvalidParameterValueException''), ROk]))) = []"
    by blast+
  have h: "QS_ADMIN_OKTA_GROUP (stack_user_env ''bucket'') \<notin> set [''Everyone'']"
    "QS_AUTHOR_OKTA_GROUP (stack_user_env ''bucket'') \<notin> set [''Everyone'']"
    "QS_READER_OKTA_GROUP (stack_user_env ''bucket'') \<notin> set [''Everyone'']"
    by (simp_all add: stack_user_env_def)
  have e: "qs_groups downgraded_user = []"
    by (simp add: downgraded_user_def new_OktaUser_def post_init_qs_groups_def stack_user_env_def)
  note d = C6_no_role_no_registration_no_group_sync[where env = "stack_user_env ''bucket''" and gs = "[''Everyone'']"
      and un = "''a@x.com''" and em = "''a@x.com''" and acct = "''111122223333''"
      and ns = "''default''" and api = scripted and w = "[ROk, ROk, ROk]",
      OF h, folded downgraded_user_def]
  from d e have v: "filter is_group_call (calls (trace (apply_user_governance scripted
         (stack_user_env ''bucket'') downgraded_user [ROk, ROk, ROk]))) = []"
    by blast
  from g t u h e v show ?thesis by blast
qed
















end
